theory Spec2Isabelle
  imports Main "HOL-Library.Word"
begin

section \<open>Text output of numbers\<close>

text \<open>
  The export code prints numbers with \<^verbatim>\<open>str_printfa\<close>: \<^verbatim>\<open>%u\<close> and
  \<^verbatim>\<open>%"PRIuUOFF_T"\<close> give the decimal digits of an unsigned value without
  leading zeros, \<^verbatim>\<open>%o\<close> the octal digits. A string buffer (\<^verbatim>\<open>string_t\<close>) is
  a \<open>string\<close>; appending to it returns the longer string.
\<close>

fun dec :: "nat \<Rightarrow> string" where
  "dec n = (if n < 10 then [''0123456789'' ! n]
            else dec (n div 10) @ [''0123456789'' ! (n mod 10)])"

declare dec.simps [simp del]

fun oct :: "nat \<Rightarrow> string" where
  "oct n = (if n < 8 then [''01234567'' ! n]
            else oct (n div 8) @ [''01234567'' ! (n mod 8)])"

declare oct.simps [simp del]

section \<open>Formatting sizes and durations\<close>

text \<open>
  \<^verbatim>\<open>config_export_size\<close>: \<^verbatim>\<open>uoff_t\<close> is an unsigned 64-bit integer. The
  \<^verbatim>\<open>for\<close> loop runs with \<open>i\<close> from 1 while \<open>i < N_ELEMENTS(suffixes)\<close> and the
  size is a multiple of 1024.
\<close>

definition suffixes :: "char list" where
  "suffixes = [CHR ''B'', CHR ''k'', CHR ''M'', CHR ''G'', CHR ''T'']"

function config_export_size_loop :: "nat \<Rightarrow> char \<Rightarrow> 64 word \<Rightarrow> char \<times> 64 word" where
  "config_export_size_loop i suffix sz =
     (if i < length suffixes \<and> sz mod 1024 = 0
      then config_export_size_loop (i + 1) (suffixes ! i) (sz div 1024)
      else (suffix, sz))"
  by pat_completeness auto
termination
  by (relation "measure (\<lambda>(i, suffix, sz). length suffixes - i)") auto

declare config_export_size_loop.simps [simp del]

definition config_export_size :: "string \<Rightarrow> 64 word \<Rightarrow> string" where
  "config_export_size str sz =
     (if sz = 0 then str @ ''0''
      else case config_export_size_loop 1 (suffixes ! 0) sz of
             (suffix, sz') \<Rightarrow> str @ dec (unat sz') @ '' '' @ [suffix])"

text \<open>
  \<^verbatim>\<open>config_export_time\<close>: \<^verbatim>\<open>unsigned int\<close> is 32 bits wide. The nested
  \<^verbatim>\<open>if\<close>s are kept as they are written.
\<close>

definition config_export_time :: "string \<Rightarrow> 32 word \<Rightarrow> string" where
  "config_export_time str stamp =
     (if stamp = 0 then str @ ''0''
      else if stamp mod 60 = 0 then
        (let stamp1 = stamp div 60 in
         if stamp1 mod 60 = 0 then
           (let stamp2 = stamp1 div 60 in
            if stamp2 mod 24 = 0 then
              (let stamp3 = stamp2 div 24 in
               if stamp3 mod 7 = 0 then
                 str @ dec (unat (stamp3 div 7)) @ '' '' @ ''weeks''
               else str @ dec (unat stamp3) @ '' '' @ ''days'')
            else str @ dec (unat stamp2) @ '' '' @ ''hours'')
         else str @ dec (unat stamp1) @ '' '' @ ''mins'')
      else str @ dec (unat stamp) @ '' '' @ ''secs'')"

definition config_export_time_msecs :: "string \<Rightarrow> 32 word \<Rightarrow> string" where
  "config_export_time_msecs str stamp_msecs =
     (if stamp_msecs mod 1000 = 0 then config_export_time str (stamp_msecs div 1000)
      else str @ dec (unat stamp_msecs) @ '' ms'')"

section \<open>Schema, values and change masks\<close>

text \<open>
  The type tags, flags, scopes and entry kinds are the enumeration constants the export
  code names. \<^verbatim>\<open>def->flags & SET_FLAG_HIDDEN\<close> and
  \<^verbatim>\<open>ctx->flags & CONFIG_DUMP_FLAG_...\<close> test one bit of a bit mask; a mask is
  modelled as the set of the flags it holds. A fatal error (\<^verbatim>\<open>i_assert\<close>,
  \<^verbatim>\<open>i_unreached\<close>) is the result \<open>Inl Panic\<close>; a read through a pointer that
  does not point to an object of the type the code casts it to is \<open>Inl Invalid_memory\<close>.
\<close>

datatype setting_type =
    SET_BOOL | SET_UINT | SET_UINT_OCT | SET_TIME | SET_TIME_MSECS | SET_SIZE | SET_IN_PORT
  | SET_STR | SET_STR_VARS | SET_ENUM | SET_DEFLIST | SET_DEFLIST_UNIQUE | SET_STRLIST
  | SET_ALIAS

datatype setting_flag = SET_FLAG_HIDDEN

datatype config_dump_scope =
    CONFIG_DUMP_SCOPE_ALL_WITH_HIDDEN
  | CONFIG_DUMP_SCOPE_ALL_WITHOUT_HIDDEN
  | CONFIG_DUMP_SCOPE_SET
  | CONFIG_DUMP_SCOPE_CHANGED

datatype config_dump_flag =
    CONFIG_DUMP_FLAG_HIDE_LIST_DEFAULTS
  | CONFIG_DUMP_FLAG_DEDUPLICATE_KEYS

datatype config_key_type = CONFIG_KEY_NORMAL | CONFIG_KEY_LIST | CONFIG_KEY_UNIQUE_KEY

datatype fatal = Panic | Invalid_memory

text \<open>
  A settings struct is addressed by byte offsets (\<^verbatim>\<open>CONST_PTR_OFFSET(set, def->offset)\<close>).
  It is modelled as the list of its fields, each with its offset; \<open>cell_at\<close> is the
  object at an offset, \<open>No_cell\<close> where the struct has no field. An array
  (\<^verbatim>\<open>ARRAY_TYPE\<close>) that was never created is \<open>None\<close>. Integer fields have the
  widths of their C types: \<^verbatim>\<open>uoff_t\<close> 64 bits, \<^verbatim>\<open>unsigned int\<close> 32 bits,
  \<^verbatim>\<open>in_port_t\<close> 16 bits.

  The change struct has the same layout. The code reads the first byte at a field's offset
  (\<^verbatim>\<open>*((const char *)change_value)\<close>), and for a section list the array of the
  children's change structs stored there; a cell of the change struct holds both.
\<close>

datatype cell =
    Bool_cell bool
  | Size_cell "64 word"
  | Uint_cell "32 word"
  | Port_cell "16 word"
  | Str_cell "string option"
  | Array_cell "(nat \<times> cell) list list option"
  | Strlist_cell "string list option"
  | No_cell

type_synonym settings = "(nat \<times> cell) list"

definition cell_at :: "settings \<Rightarrow> nat \<Rightarrow> cell" where
  "cell_at st off = (case map_of st off of None \<Rightarrow> No_cell | Some c \<Rightarrow> c)"

datatype change_cell = Change_cell "8 word" "(nat \<times> change_cell) list list"

type_synonym change_set = "(nat \<times> change_cell) list"

text \<open>
  \<^verbatim>\<open>struct setting_define\<close> and \<^verbatim>\<open>struct setting_parser_info\<close>, with the fields the
  export code reads. \<open>def_list_info\<close> is \<open>None\<close> for the null pointer. The
  \<^verbatim>\<open>defines\<close> array ends at the entry whose key is null; the list holds the entries
  before it.
\<close>

datatype setting_define =
  Setting_define (def_type: setting_type) (def_key: string) (def_offset: nat)
    (def_flags: "setting_flag set") (def_list_info: "setting_parser_info option")
and setting_parser_info =
  Setting_parser_info (info_defines: "setting_define list")
    (info_defaults: "settings option") (info_type_offset1: nat)

text \<open>
  A module parser: the schema root, the settings struct and the change struct its
  settings parser holds (\<^verbatim>\<open>settings_parser_get_set\<close>,
  \<^verbatim>\<open>settings_parser_get_changes\<close>), and the delayed error. The array of module
  parsers ends at the entry whose root is null; the list holds the entries before it.

  \<^verbatim>\<open>struct config_export_context\<close>: the string buffers \<^verbatim>\<open>value\<close> and
  \<^verbatim>\<open>prefix\<close>, the hash table \<^verbatim>\<open>keys\<close> as the set of its keys, and the calls made
  to \<^verbatim>\<open>ctx->callback\<close> so far, in order, as \<open>ctx_calls\<close> (key, value, type).
\<close>

record config_module_parser =
  root :: setting_parser_info
  parser_set :: settings
  parser_changes :: change_set
  delayed_error :: "string option"

record config_export_context =
  ctx_value :: string
  ctx_prefix :: string
  ctx_keys :: "string set"
  ctx_scope :: config_dump_scope
  ctx_flags :: "config_dump_flag set"
  ctx_section_idx :: "32 word"
  ctx_module_parsers :: "config_module_parser list"
  ctx_dup_module_parsers :: "config_module_parser list option"
  ctx_calls :: "(string \<times> string \<times> config_key_type) list"

text \<open>
  Modelled from the spec: the separator character between the segments of a key and the
  tag byte of an unexpanded variable string. Both are macros of
  \<^verbatim>\<open>settings-parser.h\<close>, which is not among the sources; no proof below depends
  on the characters chosen.
\<close>

definition SETTINGS_SEPARATOR :: char where
  "SETTINGS_SEPARATOR = CHR ''/''"

definition SETTING_STRVAR_UNEXPANDED :: string where
  "SETTING_STRVAR_UNEXPANDED = ''0''"

text \<open>
  C strings end at a NUL byte: \<open>cstr_nth s i\<close> is \<^verbatim>\<open>s[i]\<close> for \<open>i\<close> up to the
  length of \<open>s\<close>, where it is the terminator. \<^verbatim>\<open>strncmp(s1, s2, n) != 0\<close> holds
  when the first \<open>n\<close> characters differ, and \<^verbatim>\<open>null_strcmp(s1, s2) != 0\<close> when
  the two strings, either of which may be null, differ. \<open>deref_str\<close> is
  \<^verbatim>\<open>_dval == NULL ? NULL : *_dval\<close>.
\<close>

definition cstr_nth :: "string \<Rightarrow> nat \<Rightarrow> char" where
  "cstr_nth s i = (if i < length s then s ! i else CHR 0x00)"

definition strncmp_differs :: "string \<Rightarrow> string \<Rightarrow> nat \<Rightarrow> bool" where
  "strncmp_differs s1 s2 n = (take n s1 \<noteq> take n s2)"

definition null_strcmp_differs :: "string option \<Rightarrow> string option \<Rightarrow> bool" where
  "null_strcmp_differs s1 s2 = (s1 \<noteq> s2)"

definition deref_str :: "cell option \<Rightarrow> fatal + string option" where
  "deref_str p = (case p of None \<Rightarrow> Inr None
                  | Some (Str_cell s) \<Rightarrow> Inr s
                  | Some _ \<Rightarrow> Inl Invalid_memory)"

section \<open>The type formatter\<close>

text \<open>
  \<^verbatim>\<open>config_export_type\<close> returns its \<^verbatim>\<open>bool\<close> result, the string buffer and
  \<^verbatim>\<open>*dump_r\<close>. \<open>config_export_type_uint\<close> is the body shared by the cases
  \<^verbatim>\<open>SET_UINT\<close>, \<^verbatim>\<open>SET_UINT_OCT\<close>, \<^verbatim>\<open>SET_TIME\<close> and
  \<^verbatim>\<open>SET_TIME_MSECS\<close>. The default value is read only where the C code reads it.
\<close>

definition config_export_type_uint ::
  "string \<Rightarrow> cell \<Rightarrow> cell option \<Rightarrow> setting_type \<Rightarrow> bool \<Rightarrow> bool
   \<Rightarrow> fatal + (bool \<times> string \<times> bool)" where
  "config_export_type_uint str val default_value type dump_default dump =
     (case val of
        Uint_cell v \<Rightarrow>
          (let printed =
             (case type of
                SET_UINT_OCT \<Rightarrow> str @ ''0'' @ oct (unat v)
              | SET_TIME \<Rightarrow> config_export_time str v
              | SET_TIME_MSECS \<Rightarrow> config_export_time_msecs str v
              | _ \<Rightarrow> str @ dec (unat v)) in
           if dump_default \<or> default_value = None then Inr (True, printed, dump)
           else (case default_value of
                   Some (Uint_cell d) \<Rightarrow> Inr (True, if v \<noteq> d then printed else str, dump)
                 | _ \<Rightarrow> Inl Invalid_memory))
      | _ \<Rightarrow> Inl Invalid_memory)"

definition config_export_type ::
  "string \<Rightarrow> cell \<Rightarrow> cell option \<Rightarrow> setting_type \<Rightarrow> bool \<Rightarrow> bool
   \<Rightarrow> fatal + (bool \<times> string \<times> bool)" where
  "config_export_type str val default_value type dump_default dump =
     (case type of
        SET_BOOL \<Rightarrow>
          (case val of
             Bool_cell v \<Rightarrow>
               if dump_default \<or> default_value = None
               then Inr (True, str @ (if v then ''yes'' else ''no''), dump)
               else (case default_value of
                       Some (Bool_cell d) \<Rightarrow>
                         Inr (True, if v \<noteq> d then str @ (if v then ''yes'' else ''no'') else str,
                              dump)
                     | _ \<Rightarrow> Inl Invalid_memory)
           | _ \<Rightarrow> Inl Invalid_memory)
      | SET_SIZE \<Rightarrow>
          (case val of
             Size_cell v \<Rightarrow>
               if dump_default \<or> default_value = None
               then Inr (True, config_export_size str v, dump)
               else (case default_value of
                       Some (Size_cell d) \<Rightarrow>
                         Inr (True, if v \<noteq> d then config_export_size str v else str, dump)
                     | _ \<Rightarrow> Inl Invalid_memory)
           | _ \<Rightarrow> Inl Invalid_memory)
      | SET_UINT \<Rightarrow> config_export_type_uint str val default_value type dump_default dump
      | SET_UINT_OCT \<Rightarrow> config_export_type_uint str val default_value type dump_default dump
      | SET_TIME \<Rightarrow> config_export_type_uint str val default_value type dump_default dump
      | SET_TIME_MSECS \<Rightarrow> config_export_type_uint str val default_value type dump_default dump
      | SET_IN_PORT \<Rightarrow>
          (case val of
             Port_cell v \<Rightarrow>
               if dump_default \<or> default_value = None
               then Inr (True, str @ dec (unat v), dump)
               else (case default_value of
                       Some (Port_cell d) \<Rightarrow>
                         Inr (True, if v \<noteq> d then str @ dec (unat v) else str, dump)
                     | _ \<Rightarrow> Inl Invalid_memory)
           | _ \<Rightarrow> Inl Invalid_memory)
      | SET_STR_VARS \<Rightarrow>
          (case val of
             Str_cell v \<Rightarrow>
               (case deref_str default_value of
                  Inl e \<Rightarrow> Inl e
                | Inr dval \<Rightarrow>
                    (case v of
                       None \<Rightarrow> Inr (True, str, dump)
                     | Some s \<Rightarrow>
                         if cstr_nth s 0 \<noteq> cstr_nth SETTING_STRVAR_UNEXPANDED 0 then Inl Panic
                         else if dump_default \<or> null_strcmp_differs (Some (drop 1 s)) dval
                         then Inr (True, str @ drop 1 s, True)
                         else Inr (True, str, dump)))
           | _ \<Rightarrow> Inl Invalid_memory)
      | SET_STR \<Rightarrow>
          (case val of
             Str_cell v \<Rightarrow>
               (case deref_str default_value of
                  Inl e \<Rightarrow> Inl e
                | Inr dval \<Rightarrow>
                    (case v of
                       None \<Rightarrow> Inr (True, str, dump)
                     | Some s \<Rightarrow>
                         if dump_default \<or> null_strcmp_differs (Some s) dval
                         then Inr (True, str @ s, True)
                         else Inr (True, str, dump)))
           | _ \<Rightarrow> Inl Invalid_memory)
      | SET_ENUM \<Rightarrow>
          (case val of
             Str_cell (Some v) \<Rightarrow>
               (let len = length v in
                if dump_default then Inr (True, str @ v, dump)
                else (case deref_str default_value of
                        Inl e \<Rightarrow> Inl e
                      | Inr None \<Rightarrow> Inl Panic
                      | Inr (Some dval) \<Rightarrow>
                          if strncmp_differs v dval len \<or>
                             (cstr_nth v len \<noteq> CHR '':'' \<and> cstr_nth v len \<noteq> CHR 0x00)
                          then Inr (True, str @ v, dump)
                          else Inr (True, str, dump)))
           | _ \<Rightarrow> Inl Invalid_memory)
      | SET_DEFLIST \<Rightarrow> Inr (False, str, dump)
      | SET_DEFLIST_UNIQUE \<Rightarrow> Inr (False, str, dump)
      | SET_STRLIST \<Rightarrow> Inr (False, str, dump)
      | SET_ALIAS \<Rightarrow> Inr (False, str, dump))"

section \<open>The tree walker\<close>

text \<open>
  \<^verbatim>\<open>setting_export_section_name\<close>. The escaping function
  \<^verbatim>\<open>settings_section_escape\<close> is defined outside the sources and is a parameter.
\<close>

definition setting_export_section_name ::
  "(string \<Rightarrow> string) \<Rightarrow> string \<Rightarrow> setting_define \<Rightarrow> settings \<Rightarrow> 32 word \<Rightarrow> fatal + string" where
  "setting_export_section_name settings_section_escape str def st idx =
     (if def_type def \<noteq> SET_DEFLIST_UNIQUE then Inr (str @ dec (unat idx))
      else case def_list_info def of
             None \<Rightarrow> Inl Invalid_memory
           | Some list_info \<Rightarrow>
               (let name_offset1 = info_type_offset1 list_info in
                if name_offset1 = 0 then Inl Panic
                else case cell_at st (name_offset1 - 1) of
                       Str_cell None \<Rightarrow> Inr (str @ dec (unat idx))
                     | Str_cell (Some name) \<Rightarrow>
                         if name = [] then Inr (str @ dec (unat idx))
                         else Inr (str @ settings_section_escape name)
                     | _ \<Rightarrow> Inl Invalid_memory))"

definition change_byte :: "change_set \<Rightarrow> nat \<Rightarrow> fatal + 8 word" where
  "change_byte chg off =
     (case map_of chg off of
        None \<Rightarrow> Inl Invalid_memory
      | Some (Change_cell b cs) \<Rightarrow> Inr b)"

definition change_array :: "change_set \<Rightarrow> nat \<Rightarrow> fatal + change_set list" where
  "change_array chg off =
     (case map_of chg off of
        None \<Rightarrow> Inl Invalid_memory
      | Some (Change_cell b cs) \<Rightarrow> Inr cs)"

text \<open>
  The loop body of \<^verbatim>\<open>settings_export\<close>, in the order of the code:
  \<open>scope_dump_default\<close> is the \<^verbatim>\<open>switch (ctx->scope)\<close> with its fall-through,
  \<open>hide_list_defaults\<close> the \<^verbatim>\<open>if\<close> chain on
  \<^verbatim>\<open>parent_unique_deflist\<close> that follows it (it returns the default pointer and
  \<^verbatim>\<open>dump_default\<close>), \<open>settings_export_switch\<close> the
  \<^verbatim>\<open>switch (def->type)\<close> (it returns the context, \<^verbatim>\<open>dump\<close> and the children
  paired with their change structs), and \<open>settings_export_leaf\<close> the
  \<^verbatim>\<open>if (str_len(ctx->value) > 0 || dump)\<close> block. \<open>settings_export_field\<close> runs
  the four in sequence for one definition.
\<close>

definition scope_dump_default ::
  "config_dump_scope \<Rightarrow> setting_define \<Rightarrow> change_set \<Rightarrow> fatal + bool" where
  "scope_dump_default scope def change_set =
     (case scope of
        CONFIG_DUMP_SCOPE_ALL_WITH_HIDDEN \<Rightarrow> Inr True
      | CONFIG_DUMP_SCOPE_ALL_WITHOUT_HIDDEN \<Rightarrow>
          if SET_FLAG_HIDDEN \<notin> def_flags def then Inr True
          else (case change_byte change_set (def_offset def) of
                  Inl e \<Rightarrow> Inl e
                | Inr b \<Rightarrow> Inr (b \<noteq> 0))
      | CONFIG_DUMP_SCOPE_SET \<Rightarrow>
          (case change_byte change_set (def_offset def) of
             Inl e \<Rightarrow> Inl e
           | Inr b \<Rightarrow> Inr (b \<noteq> 0))
      | CONFIG_DUMP_SCOPE_CHANGED \<Rightarrow> Inr False)"

definition hide_list_defaults ::
  "config_dump_flag set \<Rightarrow> setting_parser_info \<Rightarrow> bool \<Rightarrow> setting_define \<Rightarrow> cell \<Rightarrow>
   cell option \<Rightarrow> change_set \<Rightarrow> bool \<Rightarrow> fatal + (cell option \<times> bool)" where
  "hide_list_defaults flags info parent_unique_deflist def val default_value change_set
                      dump_default =
     (if \<not> parent_unique_deflist \<or> CONFIG_DUMP_FLAG_HIDE_LIST_DEFAULTS \<notin> flags
      then Inr (default_value, dump_default)
      else case change_byte change_set (def_offset def) of
             Inl e \<Rightarrow> Inl e
           | Inr b \<Rightarrow>
               if b = 0 \<and> def_offset def + 1 \<noteq> info_type_offset1 info
               then Inr (Some val, dump_default)
               else Inr (default_value, True))"

fun export_section_names ::
  "(string \<Rightarrow> string) \<Rightarrow> string \<Rightarrow> setting_define \<Rightarrow> settings list \<Rightarrow> 32 word \<Rightarrow> nat
   \<Rightarrow> fatal + string" where
  "export_section_names esc str def [] idx i = Inr str"
| "export_section_names esc str def (child # rest) idx i =
     (case setting_export_section_name esc (if i > 0 then str @ '' '' else str) def child
             (idx + of_nat i) of
        Inl e \<Rightarrow> Inl e
      | Inr str' \<Rightarrow> export_section_names esc str' def rest idx (i + 1))"

fun strlist_callbacks ::
  "string \<Rightarrow> string \<Rightarrow> string list \<Rightarrow> (string \<times> string \<times> config_key_type) list" where
  "strlist_callbacks prefix key (k # v # rest) =
     (prefix @ key @ [SETTINGS_SEPARATOR] @ k, v, CONFIG_KEY_NORMAL)
       # strlist_callbacks prefix key rest"
| "strlist_callbacks prefix key _ = []"

definition SETTING_TYPE_IS_DEFLIST :: "setting_type \<Rightarrow> bool" where
  "SETTING_TYPE_IS_DEFLIST type = (type = SET_DEFLIST \<or> type = SET_DEFLIST_UNIQUE)"

definition settings_export_switch ::
  "(string \<Rightarrow> string) \<Rightarrow> config_export_context \<Rightarrow> setting_define \<Rightarrow> cell \<Rightarrow> cell option \<Rightarrow>
   change_set \<Rightarrow> bool
   \<Rightarrow> fatal + (config_export_context \<times> bool \<times> (settings \<times> change_set) list)" where
  "settings_export_switch esc ctx def val default_value change_set dump_default =
     (if SETTING_TYPE_IS_DEFLIST (def_type def) then
        (case val of
           Array_cell None \<Rightarrow> Inr (ctx, False, [])
         | Array_cell (Some children) \<Rightarrow>
             (case export_section_names esc (ctx_value ctx) def children (ctx_section_idx ctx) 0 of
                Inl e \<Rightarrow> Inl e
              | Inr str \<Rightarrow>
                  (case change_array change_set (def_offset def) of
                     Inl e \<Rightarrow> Inl e
                   | Inr change_children \<Rightarrow>
                       if length children \<noteq> length change_children then Inl Panic
                       else Inr (ctx\<lparr>ctx_value := str\<rparr>, False, zip children change_children)))
         | _ \<Rightarrow> Inl Invalid_memory)
      else if def_type def = SET_STRLIST then
        (case val of
           Strlist_cell None \<Rightarrow> Inr (ctx, False, [])
         | Strlist_cell (Some strings) \<Rightarrow>
             (let key = ctx_prefix ctx @ def_key def in
              if key \<in> ctx_keys ctx then Inr (ctx, False, [])
              else
                (let ctx1 = (if CONFIG_DUMP_FLAG_DEDUPLICATE_KEYS \<in> ctx_flags ctx
                             then ctx\<lparr>ctx_keys := insert key (ctx_keys ctx)\<rparr> else ctx);
                     ctx2 = ctx1\<lparr>ctx_calls := ctx_calls ctx1 @ [(key, [], CONFIG_KEY_LIST)]\<rparr>
                 in if length strings mod 2 \<noteq> 0 then Inl Panic
                    else Inr (ctx2\<lparr>ctx_calls := ctx_calls ctx2 @
                                      strlist_callbacks (ctx_prefix ctx) (def_key def) strings\<rparr>,
                              False, [])))
         | _ \<Rightarrow> Inl Invalid_memory)
      else if def_type def = SET_ALIAS then Inr (ctx, False, [])
      else
        (case config_export_type (ctx_value ctx) val default_value (def_type def) dump_default
                False of
           Inl e \<Rightarrow> Inl e
         | Inr (ok, str, dump) \<Rightarrow>
             if \<not> ok then Inl Panic else Inr (ctx\<lparr>ctx_value := str\<rparr>, dump, [])))"

definition settings_export_leaf ::
  "config_export_context \<Rightarrow> setting_parser_info \<Rightarrow> bool \<Rightarrow> setting_define \<Rightarrow> bool
   \<Rightarrow> config_export_context" where
  "settings_export_leaf ctx info parent_unique_deflist def dump =
     (if ctx_value ctx \<noteq> [] \<or> dump then
        (let key = ctx_prefix ctx @ def_key def in
         if key \<notin> ctx_keys ctx then
           (let type = (if def_offset def + 1 = info_type_offset1 info \<and> parent_unique_deflist
                        then CONFIG_KEY_UNIQUE_KEY
                        else if SETTING_TYPE_IS_DEFLIST (def_type def) then CONFIG_KEY_LIST
                        else CONFIG_KEY_NORMAL);
                ctx1 = ctx\<lparr>ctx_calls := ctx_calls ctx @ [(key, ctx_value ctx, type)]\<rparr>
            in if CONFIG_DUMP_FLAG_DEDUPLICATE_KEYS \<in> ctx_flags ctx
               then ctx1\<lparr>ctx_keys := insert key (ctx_keys ctx1)\<rparr> else ctx1)
         else ctx)
      else ctx)"

definition settings_export_field ::
  "(string \<Rightarrow> string) \<Rightarrow> config_export_context \<Rightarrow> setting_parser_info \<Rightarrow> bool \<Rightarrow> settings \<Rightarrow>
   change_set \<Rightarrow> setting_define
   \<Rightarrow> fatal + (config_export_context \<times> (settings \<times> change_set) list)" where
  "settings_export_field esc ctx info parent_unique_deflist st change_set def =
     (let val = cell_at st (def_offset def);
          default_value = (case info_defaults info of
                             None \<Rightarrow> None
                           | Some defaults \<Rightarrow> Some (cell_at defaults (def_offset def)))
      in case scope_dump_default (ctx_scope ctx) def change_set of
           Inl e \<Rightarrow> Inl e
         | Inr dump_default0 \<Rightarrow>
             (case hide_list_defaults (ctx_flags ctx) info parent_unique_deflist def val
                     default_value change_set dump_default0 of
                Inl e \<Rightarrow> Inl e
              | Inr (default_value', dump_default) \<Rightarrow>
                  (case settings_export_switch esc (ctx\<lparr>ctx_value := []\<rparr>) def val default_value'
                          change_set dump_default of
                     Inl e \<Rightarrow> Inl e
                   | Inr (ctx1, dump, children) \<Rightarrow>
                       Inr (settings_export_leaf ctx1 info parent_unique_deflist def dump,
                            children))))"

text \<open>
  \<^verbatim>\<open>settings_export\<close> itself: \<open>settings_export_defs\<close> is the \<^verbatim>\<open>for\<close> loop
  over the definitions, and \<open>settings_export_children\<close> the loop over the children at
  its end, which calls \<^verbatim>\<open>settings_export\<close> for each child. The recursion descends
  into the schema.
\<close>

lemma size_info_defines: "size_list size (info_defines info) < size info"
  by (cases info) simp

lemma size_def_list_info: "def_list_info def = Some list_info \<Longrightarrow> size list_info < size def"
  by (cases def) simp

function settings_export ::
    "(string \<Rightarrow> string) \<Rightarrow> config_export_context \<Rightarrow> setting_parser_info \<Rightarrow> bool \<Rightarrow> settings \<Rightarrow>
     change_set \<Rightarrow> fatal + config_export_context"
  and settings_export_defs ::
    "(string \<Rightarrow> string) \<Rightarrow> config_export_context \<Rightarrow> setting_parser_info \<Rightarrow> setting_define list \<Rightarrow>
     bool \<Rightarrow> settings \<Rightarrow> change_set \<Rightarrow> fatal + config_export_context"
  and settings_export_children ::
    "(string \<Rightarrow> string) \<Rightarrow> config_export_context \<Rightarrow> setting_define \<Rightarrow> 32 word \<Rightarrow> nat \<Rightarrow>
     (settings \<times> change_set) list \<Rightarrow> fatal + config_export_context"
where
  "settings_export esc ctx info parent_unique_deflist st change_set =
     settings_export_defs esc ctx info (info_defines info) parent_unique_deflist st change_set"
| "settings_export_defs esc ctx info [] parent_unique_deflist st change_set = Inr ctx"
| "settings_export_defs esc ctx info (def # defs) parent_unique_deflist st change_set =
     (case settings_export_field esc ctx info parent_unique_deflist st change_set def of
        Inl e \<Rightarrow> Inl e
      | Inr (ctx1, children) \<Rightarrow>
          (let section_start_idx = ctx_section_idx ctx1;
               ctx2 = ctx1\<lparr>ctx_section_idx := ctx_section_idx ctx1 + of_nat (length children)\<rparr>
           in case settings_export_children esc ctx2 def section_start_idx 0 children of
                Inl e \<Rightarrow> Inl e
              | Inr ctx3 \<Rightarrow>
                  settings_export_defs esc ctx3 info defs parent_unique_deflist st change_set))"
| "settings_export_children esc ctx def section_start_idx i [] = Inr ctx"
| "settings_export_children esc ctx def section_start_idx i ((child, change_child) # rest) =
     (let prefix_len = length (ctx_prefix ctx);
          prefix1 = ctx_prefix ctx @ def_key def @ [SETTINGS_SEPARATOR]
      in case setting_export_section_name esc prefix1 def child (section_start_idx + of_nat i) of
           Inl e \<Rightarrow> Inl e
         | Inr prefix2 \<Rightarrow>
             (case def_list_info def of
                None \<Rightarrow> Inl Invalid_memory
              | Some list_info \<Rightarrow>
                  (case settings_export esc (ctx\<lparr>ctx_prefix := prefix2 @ [SETTINGS_SEPARATOR]\<rparr>)
                          list_info (def_type def = SET_DEFLIST_UNIQUE) child change_child of
                     Inl e \<Rightarrow> Inl e
                   | Inr ctx1 \<Rightarrow>
                       settings_export_children esc
                         (ctx1\<lparr>ctx_prefix := take prefix_len (ctx_prefix ctx1)\<rparr>)
                         def section_start_idx (i + 1) rest)))"
  by pat_completeness auto
termination
  by (relation "measures
     [\<lambda>x. case x of
        Inl (esc, ctx, info, pu, st, chg) \<Rightarrow> size info
      | Inr (Inl (esc, ctx, info, defs, pu, st, chg)) \<Rightarrow> size_list size defs
      | Inr (Inr (esc, ctx, def, start, i, children)) \<Rightarrow> size def,
      \<lambda>x. case x of
        Inl (esc, ctx, info, pu, st, chg) \<Rightarrow> 0
      | Inr (Inl (esc, ctx, info, defs, pu, st, chg)) \<Rightarrow> length defs
      | Inr (Inr (esc, ctx, def, start, i, children)) \<Rightarrow> length children]")
    (auto dest: size_def_list_info simp: size_info_defines)

declare settings_export.simps(1) [simp del]

section \<open>Induction over the walker\<close>

text \<open>
  The induction rule of the three walker functions, with the hypotheses for the recursive
  calls stated for successful earlier steps, and the case analysis of a successful step of
  each loop.
\<close>

lemma settings_export_induct [case_names export defs_nil defs_cons children_nil children_cons]:
  assumes ex: "\<And>esc ctx info pu st chg.
      Q esc ctx info (info_defines info) pu st chg \<Longrightarrow> P esc ctx info pu st chg"
    and dn: "\<And>esc ctx info pu st chg. Q esc ctx info [] pu st chg"
    and dc: "\<And>esc ctx info def defs pu st chg.
      (\<And>ctx1 children.
          settings_export_field esc ctx info pu st chg def = Inr (ctx1, children) \<Longrightarrow>
          R esc (ctx1\<lparr>ctx_section_idx := ctx_section_idx ctx1 + of_nat (length children)\<rparr>)
            def (ctx_section_idx ctx1) 0 children) \<Longrightarrow>
      (\<And>ctx1 children ctx3.
          settings_export_field esc ctx info pu st chg def = Inr (ctx1, children) \<Longrightarrow>
          settings_export_children esc
            (ctx1\<lparr>ctx_section_idx := ctx_section_idx ctx1 + of_nat (length children)\<rparr>)
            def (ctx_section_idx ctx1) 0 children = Inr ctx3 \<Longrightarrow>
          Q esc ctx3 info defs pu st chg) \<Longrightarrow>
      Q esc ctx info (def # defs) pu st chg"
    and cn: "\<And>esc ctx def start i. R esc ctx def start i []"
    and cc: "\<And>esc ctx def start i child change_child rest.
      (\<And>prefix2 list_info.
          setting_export_section_name esc (ctx_prefix ctx @ def_key def @ [SETTINGS_SEPARATOR])
            def child (start + of_nat i) = Inr prefix2 \<Longrightarrow>
          def_list_info def = Some list_info \<Longrightarrow>
          P esc (ctx\<lparr>ctx_prefix := prefix2 @ [SETTINGS_SEPARATOR]\<rparr>) list_info
            (def_type def = SET_DEFLIST_UNIQUE) child change_child) \<Longrightarrow>
      (\<And>prefix2 list_info ctx1.
          setting_export_section_name esc (ctx_prefix ctx @ def_key def @ [SETTINGS_SEPARATOR])
            def child (start + of_nat i) = Inr prefix2 \<Longrightarrow>
          def_list_info def = Some list_info \<Longrightarrow>
          settings_export esc (ctx\<lparr>ctx_prefix := prefix2 @ [SETTINGS_SEPARATOR]\<rparr>) list_info
            (def_type def = SET_DEFLIST_UNIQUE) child change_child = Inr ctx1 \<Longrightarrow>
          R esc (ctx1\<lparr>ctx_prefix := take (length (ctx_prefix ctx)) (ctx_prefix ctx1)\<rparr>)
            def start (i + 1) rest) \<Longrightarrow>
      R esc ctx def start i ((child, change_child) # rest)"
  shows "P esc ctx info pu st chg"
    and "Q esc ctx info defs pu st chg"
    and "R esc ctx def start i children"
proof (induction esc ctx info pu st chg and esc ctx info defs pu st chg
    and esc ctx def start i children
    rule: settings_export_settings_export_defs_settings_export_children.induct)
  case (1 esc ctx info parent_unique_deflist st change_set)
  then show ?case by (rule ex)
next
  case (2 esc ctx info parent_unique_deflist st change_set)
  show ?case by (rule dn)
next
  case (3 esc ctx info "def" defs parent_unique_deflist st change_set)
  show ?case
  proof (rule dc)
    fix ctx1 children
    assume f: "settings_export_field esc ctx info parent_unique_deflist st change_set def
                 = Inr (ctx1, children)"
    show "R esc (ctx1\<lparr>ctx_section_idx := ctx_section_idx ctx1 + of_nat (length children)\<rparr>)
            def (ctx_section_idx ctx1) 0 children"
      by (rule "3.IH"(1) [OF f refl refl refl])
  next
    fix ctx1 children ctx3
    assume f: "settings_export_field esc ctx info parent_unique_deflist st change_set def
                 = Inr (ctx1, children)"
      and c: "settings_export_children esc
            (ctx1\<lparr>ctx_section_idx := ctx_section_idx ctx1 + of_nat (length children)\<rparr>)
            def (ctx_section_idx ctx1) 0 children = Inr ctx3"
    show "Q esc ctx3 info defs parent_unique_deflist st change_set"
      by (rule "3.IH"(2) [OF f refl refl refl c])
  qed
next
  case (4 esc ctx "def" section_start_idx i)
  show ?case by (rule cn)
next
  case (5 esc ctx "def" section_start_idx i child change_child rest)
  show ?case
  proof (rule cc)
    fix prefix2 list_info
    assume n: "setting_export_section_name esc (ctx_prefix ctx @ def_key def @ [SETTINGS_SEPARATOR])
            def child (section_start_idx + of_nat i) = Inr prefix2"
      and li: "def_list_info def = Some list_info"
    show "P esc (ctx\<lparr>ctx_prefix := prefix2 @ [SETTINGS_SEPARATOR]\<rparr>) list_info
            (def_type def = SET_DEFLIST_UNIQUE) child change_child"
      by (rule "5.IH"(1) [OF refl refl n li])
  next
    fix prefix2 list_info ctx1
    assume n: "setting_export_section_name esc (ctx_prefix ctx @ def_key def @ [SETTINGS_SEPARATOR])
            def child (section_start_idx + of_nat i) = Inr prefix2"
      and li: "def_list_info def = Some list_info"
      and e: "settings_export esc (ctx\<lparr>ctx_prefix := prefix2 @ [SETTINGS_SEPARATOR]\<rparr>) list_info
            (def_type def = SET_DEFLIST_UNIQUE) child change_child = Inr ctx1"
    show "R esc (ctx1\<lparr>ctx_prefix := take (length (ctx_prefix ctx)) (ctx_prefix ctx1)\<rparr>)
            def section_start_idx (i + 1) rest"
      by (rule "5.IH"(2) [OF refl refl n li e])
  qed
qed

lemma settings_export_defs_ConsE:
  assumes "settings_export_defs esc ctx info (def # defs) pu st chg = Inr ctx'"
  obtains ctx1 children ctx3 where
    "settings_export_field esc ctx info pu st chg def = Inr (ctx1, children)"
    "settings_export_children esc
       (ctx1\<lparr>ctx_section_idx := ctx_section_idx ctx1 + of_nat (length children)\<rparr>)
       def (ctx_section_idx ctx1) 0 children = Inr ctx3"
    "settings_export_defs esc ctx3 info defs pu st chg = Inr ctx'"
  using assms by (auto simp: Let_def split: sum.splits prod.splits)

lemma settings_export_children_ConsE:
  assumes "settings_export_children esc ctx def start i ((child, change_child) # rest) = Inr ctx'"
  obtains prefix2 list_info ctx1 where
    "setting_export_section_name esc (ctx_prefix ctx @ def_key def @ [SETTINGS_SEPARATOR])
       def child (start + of_nat i) = Inr prefix2"
    "def_list_info def = Some list_info"
    "settings_export esc (ctx\<lparr>ctx_prefix := prefix2 @ [SETTINGS_SEPARATOR]\<rparr>) list_info
       (def_type def = SET_DEFLIST_UNIQUE) child change_child = Inr ctx1"
    "settings_export_children esc
       (ctx1\<lparr>ctx_prefix := take (length (ctx_prefix ctx)) (ctx_prefix ctx1)\<rparr>)
       def start (i + 1) rest = Inr ctx'"
  using assms by (auto simp: Let_def split: sum.splits option.splits)

text \<open>
  What the walker leaves as it found it: scope, flags, the module parsers and, once a call
  has returned, the key prefix.
\<close>

definition same_config :: "config_export_context \<Rightarrow> config_export_context \<Rightarrow> bool" where
  "same_config ctx ctx' \<longleftrightarrow>
     ctx_scope ctx' = ctx_scope ctx \<and> ctx_flags ctx' = ctx_flags ctx \<and>
     ctx_module_parsers ctx' = ctx_module_parsers ctx \<and>
     ctx_dup_module_parsers ctx' = ctx_dup_module_parsers ctx \<and>
     ctx_prefix ctx' = ctx_prefix ctx"

lemma section_name_appends:
  "setting_export_section_name esc str def st idx = Inr str' \<Longrightarrow> \<exists>name. str' = str @ name"
  by (auto simp: setting_export_section_name_def Let_def split: if_splits option.splits cell.splits)

lemma settings_export_switch_frame:
  "settings_export_switch esc ctx def val dv chg dd = Inr (ctx', dump, children) \<Longrightarrow>
   same_config ctx ctx' \<and> ctx_section_idx ctx' = ctx_section_idx ctx"
  by (auto simp: settings_export_switch_def same_config_def Let_def
      split: if_splits option.splits cell.splits sum.splits prod.splits)

lemma settings_export_leaf_frame:
  "same_config ctx (settings_export_leaf ctx info pu def dump) \<and>
   ctx_section_idx (settings_export_leaf ctx info pu def dump) = ctx_section_idx ctx"
  by (simp add: settings_export_leaf_def same_config_def Let_def)

lemma settings_export_field_frame:
  "settings_export_field esc ctx info pu st chg def = Inr (ctx', children) \<Longrightarrow>
   same_config ctx ctx' \<and> ctx_section_idx ctx' = ctx_section_idx ctx"
proof -
  assume a: "settings_export_field esc ctx info pu st chg def = Inr (ctx', children)"
  then obtain ctx1 dump dv dd where
    sw: "settings_export_switch esc (ctx\<lparr>ctx_value := []\<rparr>) def (cell_at st (def_offset def)) dv chg dd
           = Inr (ctx1, dump, children)"
    and c': "ctx' = settings_export_leaf ctx1 info pu def dump"
    by (auto simp: settings_export_field_def Let_def split: sum.splits prod.splits)
  from settings_export_switch_frame [OF sw] settings_export_leaf_frame [of ctx1 info pu def dump]
  show ?thesis unfolding c' by (simp add: same_config_def)
qed

lemma settings_export_frame_all:
  "(\<forall>ctx'. settings_export esc ctx info pu st chg = Inr ctx' \<longrightarrow> same_config ctx ctx')"
  "(\<forall>ctx'. settings_export_defs esc ctx info defs pu st chg = Inr ctx' \<longrightarrow> same_config ctx ctx')"
  "(\<forall>ctx'. settings_export_children esc ctx def start i children = Inr ctx' \<longrightarrow>
      same_config ctx ctx')"
proof (induction esc ctx info pu st chg and esc ctx info defs pu st chg
    and esc ctx def start i children rule: settings_export_induct)
  case (export esc ctx info pu st chg)
  then show ?case by (simp add: settings_export.simps(1))
next
  case (defs_nil esc ctx info pu st chg)
  show ?case by (simp add: same_config_def)
next
  case (defs_cons esc ctx info "def" defs pu st chg)
  show ?case
  proof (intro allI impI)
    fix ctx'
    assume "settings_export_defs esc ctx info (def # defs) pu st chg = Inr ctx'"
    then obtain ctx1 children ctx3 where
      f: "settings_export_field esc ctx info pu st chg def = Inr (ctx1, children)"
      and c: "settings_export_children esc
                (ctx1\<lparr>ctx_section_idx := ctx_section_idx ctx1 + of_nat (length children)\<rparr>)
                def (ctx_section_idx ctx1) 0 children = Inr ctx3"
      and r: "settings_export_defs esc ctx3 info defs pu st chg = Inr ctx'"
      by (rule settings_export_defs_ConsE)
    from defs_cons.IH(1) [OF f] c
    have "same_config (ctx1\<lparr>ctx_section_idx := ctx_section_idx ctx1 + of_nat (length children)\<rparr>)
            ctx3" by simp
    moreover from defs_cons.IH(2) [OF f c] r have "same_config ctx3 ctx'" by simp
    ultimately show "same_config ctx ctx'"
      using settings_export_field_frame [OF f] by (simp add: same_config_def)
  qed
next
  case (children_nil esc ctx "def" start i)
  show ?case by (simp add: same_config_def)
next
  case (children_cons esc ctx "def" start i child change_child rest)
  show ?case
  proof (intro allI impI)
    fix ctx'
    assume "settings_export_children esc ctx def start i ((child, change_child) # rest) = Inr ctx'"
    then obtain prefix2 list_info ctx1 where
      n: "setting_export_section_name esc (ctx_prefix ctx @ def_key def @ [SETTINGS_SEPARATOR])
            def child (start + of_nat i) = Inr prefix2"
      and li: "def_list_info def = Some list_info"
      and e: "settings_export esc (ctx\<lparr>ctx_prefix := prefix2 @ [SETTINGS_SEPARATOR]\<rparr>) list_info
                (def_type def = SET_DEFLIST_UNIQUE) child change_child = Inr ctx1"
      and r: "settings_export_children esc
                (ctx1\<lparr>ctx_prefix := take (length (ctx_prefix ctx)) (ctx_prefix ctx1)\<rparr>)
                def start (i + 1) rest = Inr ctx'"
      by (rule settings_export_children_ConsE)
    from children_cons.IH(1) [OF n li] e
    have s1: "same_config (ctx\<lparr>ctx_prefix := prefix2 @ [SETTINGS_SEPARATOR]\<rparr>) ctx1" by simp
    from children_cons.IH(2) [OF n li e] r
    have s2: "same_config (ctx1\<lparr>ctx_prefix := take (length (ctx_prefix ctx)) (ctx_prefix ctx1)\<rparr>)
                ctx'" by simp
    from section_name_appends [OF n] obtain name where
      "prefix2 = (ctx_prefix ctx @ def_key def @ [SETTINGS_SEPARATOR]) @ name" by blast
    with s1 s2 show "same_config ctx ctx'" by (simp add: same_config_def)
  qed
qed

lemma settings_export_frame:
  "settings_export esc ctx info pu st chg = Inr ctx' \<Longrightarrow> same_config ctx ctx'"
  using settings_export_frame_all(1) by blast

section \<open>The export context and the module parsers\<close>

text \<open>
  \<^verbatim>\<open>config_export_init\<close> gives a context with empty buffers and an empty hash table
  (\<^verbatim>\<open>p_new\<close> zeroes the rest). \<^verbatim>\<open>config_export_free\<close> is modelled by the
  releases it performs, in order: the duplicated module parsers if the context owns any,
  the hash table, the memory pool.

  \<^verbatim>\<open>config_export_parser\<close> returns its \<^verbatim>\<open>int\<close> result, the context,
  \<^verbatim>\<open>*section_idx\<close> and the string stored in \<^verbatim>\<open>*error_r\<close>, if any. An index
  at or past the end of the module parsers reads the terminating entry, whose root is null.
  \<^verbatim>\<open>config_export_all_parsers\<close> returns its result, \<^verbatim>\<open>*section_idx\<close>, the
  calls made to the callback, the messages passed to \<^verbatim>\<open>i_error\<close> and the releases of
  \<^verbatim>\<open>config_export_free\<close>; it sets the caller's handle to null at its start.
\<close>

datatype teardown = Module_parsers_free | Hash_table_destroy | Pool_unref

definition config_export_init ::
  "config_dump_scope \<Rightarrow> config_dump_flag set \<Rightarrow> config_export_context" where
  "config_export_init scope flags =
     \<lparr>ctx_value = [], ctx_prefix = [], ctx_keys = {}, ctx_scope = scope, ctx_flags = flags,
      ctx_section_idx = 0, ctx_module_parsers = [], ctx_dup_module_parsers = None,
      ctx_calls = []\<rparr>"

definition config_export_set_module_parsers ::
  "config_export_context \<Rightarrow> config_module_parser list \<Rightarrow> config_export_context" where
  "config_export_set_module_parsers ctx module_parsers =
     ctx\<lparr>ctx_module_parsers := module_parsers\<rparr>"

definition config_export_free :: "config_export_context \<Rightarrow> teardown list" where
  "config_export_free ctx =
     (if ctx_dup_module_parsers ctx \<noteq> None then [Module_parsers_free] else [])
     @ [Hash_table_destroy, Pool_unref]"

definition config_export_parser ::
  "(string \<Rightarrow> string) \<Rightarrow> config_export_context \<Rightarrow> nat \<Rightarrow> 32 word
   \<Rightarrow> fatal + (int \<times> config_export_context \<times> 32 word \<times> string option)" where
  "config_export_parser esc ctx parser_idx section_idx =
     (if parser_idx \<ge> length (ctx_module_parsers ctx) then Inl Invalid_memory
      else
        (let module_parser = ctx_module_parsers ctx ! parser_idx in
         case delayed_error module_parser of
           Some err \<Rightarrow> Inr (- 1, ctx, section_idx, Some err)
         | None \<Rightarrow>
             (case settings_export esc (ctx\<lparr>ctx_section_idx := section_idx\<rparr>)
                     (root module_parser) False (parser_set module_parser)
                     (parser_changes module_parser) of
                Inl e \<Rightarrow> Inl e
              | Inr ctx' \<Rightarrow> Inr (0, ctx', ctx_section_idx ctx', None))))"

lemma config_export_parser_parsers:
  "config_export_parser esc ctx i sidx = Inr (r, ctx', sidx', err) \<Longrightarrow>
   ctx_module_parsers ctx' = ctx_module_parsers ctx"
  by (auto simp: config_export_parser_def Let_def same_config_def
      split: if_splits option.splits sum.splits dest!: settings_export_frame)

record export_all_result =
  all_ret :: int
  all_section_idx :: "32 word"
  all_calls :: "(string \<times> string \<times> config_key_type) list"
  all_errors :: "string list"
  all_teardown :: "teardown list"

function config_export_all_parsers_loop ::
  "(string \<Rightarrow> string) \<Rightarrow> config_export_context \<Rightarrow> nat \<Rightarrow> 32 word
   \<Rightarrow> fatal + (int \<times> config_export_context \<times> 32 word \<times> string list)" where
  "config_export_all_parsers_loop esc ctx i section_idx =
     (if i < length (ctx_module_parsers ctx) then
        (case config_export_parser esc ctx i section_idx of
           Inl e \<Rightarrow> Inl e
         | Inr (r, ctx', section_idx', error) \<Rightarrow>
             if r < 0 then Inr (- 1, ctx', section_idx', [the error])
             else config_export_all_parsers_loop esc ctx' (i + 1) section_idx')
      else Inr (0, ctx, section_idx, []))"
  by pat_completeness auto
termination
  by (relation "measure (\<lambda>(esc, ctx, i, section_idx). length (ctx_module_parsers ctx) - i)")
     (auto dest: config_export_parser_parsers)

declare config_export_all_parsers_loop.simps [simp del]

definition config_export_all_parsers ::
  "(string \<Rightarrow> string) \<Rightarrow> config_export_context \<Rightarrow> 32 word \<Rightarrow> fatal + export_all_result" where
  "config_export_all_parsers esc ctx section_idx =
     (case config_export_all_parsers_loop esc ctx 0 section_idx of
        Inl e \<Rightarrow> Inl e
      | Inr (ret, ctx', section_idx', errors) \<Rightarrow>
          Inr \<lparr>all_ret = ret, all_section_idx = section_idx', all_calls = ctx_calls ctx',
               all_errors = errors, all_teardown = config_export_free ctx'\<rparr>)"

section \<open>Specification functions\<close>

text \<open>
  The unit of a size, in the words of the specification: the largest unit among B, k, M,
  G, T (numbered 0 to 4) whose power of 1024 divides the size exactly.
  \<open>largest_unit_upto k n\<close> is the largest \<open>j \<le> k\<close> with \<open>1024 ^ j\<close> dividing \<open>n\<close>.
\<close>

fun largest_unit_upto :: "nat \<Rightarrow> nat \<Rightarrow> nat" where
  "largest_unit_upto 0 n = 0"
| "largest_unit_upto (Suc k) n =
     (if 1024 ^ Suc k dvd n then Suc k else largest_unit_upto k n)"

definition largest_unit :: "nat \<Rightarrow> nat" where
  "largest_unit n = largest_unit_upto (length suffixes - 1) n"

text \<open>
  The unit chain of a duration, in the words of the specification: from seconds to minutes
  (by 60), hours (by 60), days (by 24) and weeks (by 7), a step being taken only while the
  division is exact.
\<close>

definition unit_chain :: "(nat \<times> string) list" where
  "unit_chain = [(60, ''mins''), (60, ''hours''), (24, ''days''), (7, ''weeks'')]"

fun walk_units :: "nat \<Rightarrow> string \<Rightarrow> (nat \<times> string) list \<Rightarrow> nat \<times> string" where
  "walk_units n u [] = (n, u)"
| "walk_units n u ((d, u') # rest) =
     (if n mod d = 0 then walk_units (n div d) u' rest else (n, u))"

text \<open>
  Export-one over the first \<open>k\<close> module parsers, in order, each started with the context
  and the section index the one before it left.
\<close>

fun export_first ::
  "(string \<Rightarrow> string) \<Rightarrow> config_export_context \<Rightarrow> 32 word \<Rightarrow> nat
   \<Rightarrow> fatal + (config_export_context \<times> 32 word)" where
  "export_first esc ctx section_idx 0 = Inr (ctx, section_idx)"
| "export_first esc ctx section_idx (Suc k) =
     (case export_first esc ctx section_idx k of
        Inl e \<Rightarrow> Inl e
      | Inr (ctx', section_idx') \<Rightarrow>
          (case config_export_parser esc ctx' k section_idx' of
             Inl e \<Rightarrow> Inl e
           | Inr (r, ctx'', section_idx'', err) \<Rightarrow> Inr (ctx'', section_idx'')))"







text \<open>
  \<open>keys_grow c c'\<close>: from \<open>c\<close> to \<open>c'\<close> the flags are kept and the emitted-keys set
  only gains keys, and none with deduplication off. \<open>leaf_entry\<close> is the entry the
  generic leaf emission passes to the callback.
\<close>

definition keys_grow :: "config_export_context \<Rightarrow> config_export_context \<Rightarrow> bool" where
  "keys_grow c c' \<longleftrightarrow>
     ctx_flags c' = ctx_flags c \<and> ctx_keys c \<subseteq> ctx_keys c' \<and>
     (CONFIG_DUMP_FLAG_DEDUPLICATE_KEYS \<notin> ctx_flags c \<longrightarrow> ctx_keys c' = ctx_keys c)"


section \<open>Example configurations\<close>

text \<open>
  A root with one string multimap \<open>plugin\<close>; two module parsers for it, one of them with a
  delayed error. A root with a unique section list \<open>service\<close> (name field \<open>name\<close>, and
  \<open>limit\<close>) and a plain section list \<open>item\<close>; settings for it with two services
  and three items, and settings with two services of the same name. A root whose services
  hold a nested list \<open>listener\<close>.
\<close>

definition example_plugin_def :: setting_define where
  "example_plugin_def = Setting_define SET_STRLIST ''plugin'' 0 {} None"

definition example_plugin_info :: setting_parser_info where
  "example_plugin_info = Setting_parser_info [example_plugin_def] None 0"

definition example_plugin_set :: settings where
  "example_plugin_set = [(0, Strlist_cell (Some [''quota'', ''maildir'', ''acl'', ''vfile'']))]"

definition example_plugin_changes :: change_set where
  "example_plugin_changes = [(0, Change_cell 1 [])]"

definition example_plugin_parser :: config_module_parser where
  "example_plugin_parser =
     \<lparr>root = example_plugin_info, parser_set = example_plugin_set,
      parser_changes = example_plugin_changes, delayed_error = None\<rparr>"

definition example_failed_parser :: config_module_parser where
  "example_failed_parser =
     \<lparr>root = example_plugin_info, parser_set = [], parser_changes = [],
      delayed_error = Some ''unknown setting''\<rparr>"


definition example_service_info :: setting_parser_info where
  "example_service_info =
     Setting_parser_info
       [Setting_define SET_STR ''name'' 0 {} None,
        Setting_define SET_UINT ''limit'' 8 {} None]
       (Some [(0, Str_cell (Some [])), (8, Uint_cell 100)]) 1"










lemmas walker_eval =
  settings_export.simps(1) settings_export_field_def scope_dump_default_def
  hide_list_defaults_def settings_export_switch_def settings_export_leaf_def
  SETTING_TYPE_IS_DEFLIST_def cell_at_def change_array_def change_byte_def
  setting_export_section_name_def config_export_type_def config_export_type_uint_def
  deref_str_def null_strcmp_differs_def strncmp_differs_def cstr_nth_def
  SETTINGS_SEPARATOR_def SETTING_STRVAR_UNEXPANDED_def config_export_parser_def
  config_export_init_def config_export_free_def config_export_set_module_parsers_def
  Let_def

section \<open>The examples, evaluated\<close>


lemma example_plugin_export:
  "ctx_prefix c = [] \<Longrightarrow> ctx_keys c = {} \<Longrightarrow> ctx_flags c = {} \<Longrightarrow>
   settings_export id c example_plugin_info False example_plugin_set example_plugin_changes =
   Inr (c\<lparr>ctx_value := [],
          ctx_calls := ctx_calls c @
            [(''plugin'', [], CONFIG_KEY_LIST),
             (''plugin/quota'', ''maildir'', CONFIG_KEY_NORMAL),
             (''plugin/acl'', ''vfile'', CONFIG_KEY_NORMAL)]\<rparr>)"
  by (cases "ctx_scope c")
     (simp_all add: example_plugin_info_def example_plugin_def_def example_plugin_set_def
        example_plugin_changes_def walker_eval)

section \<open>Sizes\<close>

lemma largest_unit_upto_numeral:
  "largest_unit_upto (numeral k) n =
     (if 1024 ^ Suc (pred_numeral k) dvd n then Suc (pred_numeral k)
      else largest_unit_upto (pred_numeral k) n)"
  using largest_unit_upto.simps(2) [of "pred_numeral k" n] by (simp only: numeral_eq_Suc [of k])

lemma largest_unit_upto_props:
  "largest_unit_upto k n \<le> k \<and> 1024 ^ largest_unit_upto k n dvd n \<and>
   (\<forall>j\<le>k. 1024 ^ j dvd n \<longrightarrow> j \<le> largest_unit_upto k n)"
  by (induction k) (auto simp: le_Suc_eq)

lemma largest_unit_props:
  "largest_unit n \<le> 4 \<and> 1024 ^ largest_unit n dvd n \<and>
   (largest_unit n < 4 \<longrightarrow> \<not> 1024 ^ Suc (largest_unit n) dvd n)"
proof -
  have l: "length suffixes - 1 = 4" by (simp add: suffixes_def)
  from largest_unit_upto_props [of 4 n]
  have a: "largest_unit n \<le> 4" and b: "1024 ^ largest_unit n dvd n"
    and c: "\<And>j. j \<le> 4 \<Longrightarrow> 1024 ^ j dvd n \<Longrightarrow> j \<le> largest_unit n"
    unfolding largest_unit_def l by blast+
  have "\<not> 1024 ^ Suc (largest_unit n) dvd n" if "largest_unit n < 4"
    using c [of "Suc (largest_unit n)"] that by auto
  with a b show ?thesis by blast
qed

lemma word_mod_1024: "(sz :: 64 word) mod 1024 = 0 \<longleftrightarrow> 1024 dvd unat sz"
proof -
  have "sz mod 1024 = 0 \<longleftrightarrow> unat (sz mod 1024) = 0" by (simp add: unat_eq_0)
  also have "\<dots> \<longleftrightarrow> unat sz mod 1024 = 0" by (simp add: unat_mod)
  finally show ?thesis by (simp add: mod_eq_0_iff_dvd)
qed

lemma word_div_1024: "unat ((sz :: 64 word) div 1024) = unat sz div 1024"
  by (simp add: unat_div)

lemma loop_result:
  "i \<le> j \<Longrightarrow> j \<le> 4 \<Longrightarrow> 1024 ^ (j - i) dvd unat sz \<Longrightarrow>
   (j < 4 \<longrightarrow> \<not> 1024 ^ Suc (j - i) dvd unat sz) \<Longrightarrow>
   \<exists>sz'. config_export_size_loop (i + 1) (suffixes ! i) sz = (suffixes ! j, sz') \<and>
         unat sz' = unat sz div 1024 ^ (j - i)"
proof (induction "j - i" arbitrary: i sz)
  case 0
  then have ij: "i = j" by simp
  with 0 have "\<not> (i + 1 < length suffixes \<and> sz mod 1024 = 0)"
    by (auto simp: suffixes_def word_mod_1024)
  then have "config_export_size_loop (i + 1) (suffixes ! i) sz = (suffixes ! i, sz)"
    by (subst config_export_size_loop.simps) (simp only: if_False)
  then show ?case using ij by simp
next
  case (Suc k)
  then have lt: "i < j" and k: "k = j - (i + 1)" by simp_all
  from Suc.prems lt have len: "i + 1 < length suffixes" by (simp add: suffixes_def)
  have ji: "j - i = Suc k" using Suc.hyps by simp
  from Suc.prems ji have dv: "1024 * (1024 ^ k) dvd unat sz" by simp
  then have m: "sz mod 1024 = 0" by (auto simp: word_mod_1024 dest: dvd_mult_left)
  from dv obtain q where q: "unat sz = 1024 * (1024 ^ k * q)" by (auto simp: dvd_def mult.assoc)
  then have d1: "1024 ^ (j - (i + 1)) dvd unat (sz div 1024)"
    by (simp add: word_div_1024 k)
  have d2: "j < 4 \<longrightarrow> \<not> 1024 ^ Suc (j - (i + 1)) dvd unat (sz div 1024)"
  proof (intro impI notI)
    assume j4: "j < 4" and a: "1024 ^ Suc (j - (i + 1)) dvd unat (sz div 1024)"
    then obtain r where "unat sz div 1024 = 1024 ^ Suc k * r"
      by (auto simp: word_div_1024 k dvd_def)
    with q have "unat sz = 1024 ^ Suc (Suc k) * r" by simp
    then have "1024 ^ Suc (j - i) dvd unat sz" unfolding ji by (metis dvd_triv_left)
    with Suc.prems j4 show False by simp
  qed
  from Suc.hyps(1) [OF k _ _ d1 d2] lt Suc.prems
  obtain sz' where r: "config_export_size_loop (i + 1 + 1) (suffixes ! (i + 1)) (sz div 1024) = (suffixes ! j, sz')"
      and u: "unat sz' = unat (sz div 1024) div 1024 ^ (j - (i + 1))"
    by auto
  have "unat sz' = unat sz div 1024 ^ (j - i)"
    using u k by (simp add: word_div_1024 ji div_mult2_eq)
  moreover have "config_export_size_loop (i + 1) (suffixes ! i) sz = (suffixes ! j, sz')"
    using len m r by (subst config_export_size_loop.simps) simp
  ultimately show ?case by blast
qed

text \<open>
  C7. A size of zero is printed as \<open>0\<close>. Any other size is printed as the quotient by
  the largest power of 1024, up to the fourth, that divides it, followed by a space and the
  unit of that power (B, k, M, G, T): 1024 gives \<open>1 k\<close>, 1536 gives \<open>1536 B\<close> and
  1073741824 gives \<open>1 G\<close>.
\<close>

theorem config_export_size_largest_unit:
  "config_export_size str sz =
     (if sz = 0 then str @ ''0''
      else str @ dec (unat sz div 1024 ^ largest_unit (unat sz)) @ '' '' @
           [suffixes ! largest_unit (unat sz)])
   \<and> config_export_size [] 0 = ''0''
   \<and> config_export_size [] 1024 = ''1 k''
   \<and> config_export_size [] 1536 = ''1536 B''
   \<and> config_export_size [] 1073741824 = ''1 G''"
proof -
  have gen: "config_export_size s z =
     (if z = 0 then s @ ''0''
      else s @ dec (unat z div 1024 ^ largest_unit (unat z)) @ '' '' @
           [suffixes ! largest_unit (unat z)])" for s z
  proof (cases "z = 0")
    case True
    then show ?thesis by (simp add: config_export_size_def)
  next
    case False
    from largest_unit_props [of "unat z"] loop_result [of 0 "largest_unit (unat z)" z]
    obtain z' where "config_export_size_loop 1 (suffixes ! 0) z = (suffixes ! largest_unit (unat z), z')"
      and "unat z' = unat z div 1024 ^ largest_unit (unat z)"
      by auto
    with False show ?thesis by (simp add: config_export_size_def)
  qed
  have "config_export_size [] 1024 = ''1 k''"
    by (simp add: config_export_size_def config_export_size_loop.simps suffixes_def dec.simps)
  moreover have "config_export_size [] 1536 = ''1536 B''"
    by (simp add: config_export_size_def config_export_size_loop.simps suffixes_def dec.simps)
  moreover have "config_export_size [] 1073741824 = ''1 G''"
    by (simp add: config_export_size_def config_export_size_loop.simps suffixes_def dec.simps)
  moreover have "config_export_size [] 0 = ''0''"
    by (simp add: gen)
  ultimately show ?thesis using gen [of str sz] by simp
qed

theorem config_export_size_largest_unit_witness:
  "config_export_size ''size = '' 3145728 = ''size = 3 M''"
proof -
  have "largest_unit (unat (3145728 :: 64 word)) = 2"
    by (simp add: largest_unit_def suffixes_def largest_unit_upto_numeral)
  then show ?thesis
    using config_export_size_largest_unit [of "''size = ''" 3145728]
    by (simp add: suffixes_def dec.simps)
qed

section \<open>Durations\<close>

lemma w32_mod_0: "unat (k :: 32 word) = m \<Longrightarrow> 0 < m \<Longrightarrow> (x :: 32 word) mod k = 0 \<longleftrightarrow> unat x mod m = 0"
proof -
  assume k: "unat k = m" and "0 < m"
  have "x mod k = 0 \<longleftrightarrow> unat (x mod k) = 0" by (simp add: unat_eq_0)
  also have "\<dots> \<longleftrightarrow> unat x mod m = 0" using k by (simp add: unat_mod)
  finally show ?thesis .
qed

lemma w32_mods:
  "(x :: 32 word) mod 60 = 0 \<longleftrightarrow> unat x mod 60 = 0"
  "(x :: 32 word) mod 24 = 0 \<longleftrightarrow> unat x mod 24 = 0"
  "(x :: 32 word) mod 7 = 0 \<longleftrightarrow> unat x mod 7 = 0"
  "(x :: 32 word) mod 1000 = 0 \<longleftrightarrow> unat x mod 1000 = 0"
  by (rule w32_mod_0; simp)+

lemma w32_divs:
  "unat ((x :: 32 word) div 60) = unat x div 60"
  "unat ((x :: 32 word) div 24) = unat x div 24"
  "unat ((x :: 32 word) div 7) = unat x div 7"
  "unat ((x :: 32 word) div 1000) = unat x div 1000"
  by (simp_all add: unat_div)

lemma config_export_time_walk:
  "config_export_time str stamp =
     (if stamp = 0 then str @ ''0''
      else case walk_units (unat stamp) ''secs'' unit_chain of
             (n, u) \<Rightarrow> str @ dec n @ '' '' @ u)"
  by (simp add: config_export_time_def unit_chain_def Let_def w32_mods w32_divs)

text \<open>
  C8. A duration of zero seconds is printed as \<open>0\<close>. Any other duration walks the
  unit chain from seconds and is printed as the number reached, a space and the name of the
  unit reached. A duration in milliseconds that is a multiple of 1000 is printed as its
  number of seconds by the same rule, any other as the number followed by \<open>ms\<close>. 90
  gives \<open>90 secs\<close>, 120 gives \<open>2 mins\<close>, 604800 gives \<open>1 weeks\<close>, 90000 ms gives
  \<open>90 secs\<close> and 1500 ms gives \<open>1500 ms\<close>.
\<close>

theorem config_export_time_unit_chain:
  "config_export_time str stamp =
     (if stamp = 0 then str @ ''0''
      else case walk_units (unat stamp) ''secs'' unit_chain of
             (n, u) \<Rightarrow> str @ dec n @ '' '' @ u)
   \<and> config_export_time_msecs str stamp_msecs =
     (if unat stamp_msecs mod 1000 = 0
      then (if stamp_msecs = 0 then str @ ''0''
            else case walk_units (unat stamp_msecs div 1000) ''secs'' unit_chain of
                   (n, u) \<Rightarrow> str @ dec n @ '' '' @ u)
      else str @ dec (unat stamp_msecs) @ '' ms'')
   \<and> config_export_time [] 0 = ''0''
   \<and> config_export_time [] 90 = ''90 secs''
   \<and> config_export_time [] 120 = ''2 mins''
   \<and> config_export_time [] 604800 = ''1 weeks''
   \<and> config_export_time_msecs [] 90000 = ''90 secs''
   \<and> config_export_time_msecs [] 1500 = ''1500 ms''"
proof -
  have z: "stamp_msecs div 1000 = 0 \<longleftrightarrow> stamp_msecs = 0" if "unat stamp_msecs mod 1000 = 0"
  proof -
    have "stamp_msecs div 1000 = 0 \<longleftrightarrow> unat stamp_msecs div 1000 = 0"
      by (simp add: unat_eq_0 [symmetric] w32_divs)
    also have "\<dots> \<longleftrightarrow> unat stamp_msecs = 0" using that by auto
    finally show ?thesis by (simp add: unat_eq_0)
  qed
  have m: "config_export_time_msecs str stamp_msecs =
     (if unat stamp_msecs mod 1000 = 0
      then (if stamp_msecs = 0 then str @ ''0''
            else case walk_units (unat stamp_msecs div 1000) ''secs'' unit_chain of
                   (n, u) \<Rightarrow> str @ dec n @ '' '' @ u)
      else str @ dec (unat stamp_msecs) @ '' ms'')"
    using z by (simp add: config_export_time_msecs_def config_export_time_walk w32_mods w32_divs)
  have e1: "config_export_time [] 0 = ''0''" by (simp add: config_export_time_def)
  have e2: "config_export_time [] 90 = ''90 secs''"
    by (simp add: config_export_time_def dec.simps)
  have e3: "config_export_time [] 120 = ''2 mins''"
    by (simp add: config_export_time_def dec.simps)
  have e4: "config_export_time [] 604800 = ''1 weeks''"
    by (simp add: config_export_time_def dec.simps)
  have e5: "config_export_time_msecs [] 90000 = ''90 secs''"
    by (simp add: config_export_time_msecs_def config_export_time_def dec.simps)
  have e6: "config_export_time_msecs [] 1500 = ''1500 ms''"
    by (simp add: config_export_time_msecs_def dec.simps)
  show ?thesis using config_export_time_walk [of str stamp] m e1 e2 e3 e4 e5 e6 by blast
qed

theorem config_export_time_unit_chain_witness:
  "config_export_time [] 7200 = ''2 hours'' \<and> config_export_time_msecs [] 172800000 = ''2 days''"
  using config_export_time_unit_chain [of "[]" 7200 172800000]
  by (simp add: unit_chain_def dec.simps)

section \<open>The forced-default flag\<close>

lemma settings_export_field_scope:
  "settings_export_field esc ctx info pu st chg def = Inr (ctx1, children) \<Longrightarrow>
   \<exists>dd. scope_dump_default (ctx_scope ctx) def chg = Inr dd"
  by (auto simp: settings_export_field_def Let_def split: sum.splits)

lemma settings_export_field_bool_default:
  assumes "def_type def = SET_BOOL"
    and "\<not> pu"
    and "cell_at st (def_offset def) = Bool_cell v"
    and "info_defaults info = Some defaults"
    and "cell_at defaults (def_offset def) = Bool_cell v"
    and "scope_dump_default (ctx_scope ctx) def chg = Inr dd"
    and "ctx_prefix ctx @ def_key def \<notin> ctx_keys ctx"
    and "settings_export_field esc ctx info pu st chg def = Inr (ctx1, children)"
  shows "ctx_calls ctx1 =
           ctx_calls ctx @
           (if dd then [(ctx_prefix ctx @ def_key def, if v then ''yes'' else ''no'',
                         CONFIG_KEY_NORMAL)]
            else [])"
  using assms
  by (auto simp: settings_export_field_def hide_list_defaults_def settings_export_switch_def
      SETTING_TYPE_IS_DEFLIST_def config_export_type_def settings_export_leaf_def Let_def
      split: if_splits)

text \<open>
  C1. The forced-default flag that the walker computes for a definition from the dump scope:
  true under ALL_WITH_HIDDEN; under ALL_WITHOUT_HIDDEN true when the definition's hidden
  flag is clear, and otherwise whether the byte of the change mask for the field is
  non-zero; under SET whether that byte is non-zero; false under CHANGED.
\<close>

theorem scope_dump_default_rule:
  "scope_dump_default CONFIG_DUMP_SCOPE_ALL_WITH_HIDDEN def chg = Inr True
   \<and> (SET_FLAG_HIDDEN \<notin> def_flags def \<longrightarrow>
        scope_dump_default CONFIG_DUMP_SCOPE_ALL_WITHOUT_HIDDEN def chg = Inr True)
   \<and> (SET_FLAG_HIDDEN \<in> def_flags def \<and> change_byte chg (def_offset def) = Inr b \<longrightarrow>
        scope_dump_default CONFIG_DUMP_SCOPE_ALL_WITHOUT_HIDDEN def chg = Inr (b \<noteq> 0))
   \<and> (change_byte chg (def_offset def) = Inr b \<longrightarrow>
        scope_dump_default CONFIG_DUMP_SCOPE_SET def chg = Inr (b \<noteq> 0))
   \<and> scope_dump_default CONFIG_DUMP_SCOPE_CHANGED def chg = Inr False
   \<and> (settings_export_field esc ctx info pu st chg def = Inr (ctx1, children) \<longrightarrow>
        (\<exists>dd. scope_dump_default (ctx_scope ctx) def chg = Inr dd))
   \<and> (def_type def = SET_BOOL \<and> \<not> pu \<and> cell_at st (def_offset def) = Bool_cell v \<and>
       info_defaults info = Some defaults \<and> cell_at defaults (def_offset def) = Bool_cell v \<and>
       scope_dump_default (ctx_scope ctx) def chg = Inr dd \<and>
       ctx_prefix ctx @ def_key def \<notin> ctx_keys ctx \<and>
       settings_export_field esc ctx info pu st chg def = Inr (ctx1, children) \<longrightarrow>
        ctx_calls ctx1 =
          ctx_calls ctx @
          (if dd then [(ctx_prefix ctx @ def_key def, if v then ''yes'' else ''no'',
                        CONFIG_KEY_NORMAL)]
           else []))"
proof -
  have a: "scope_dump_default CONFIG_DUMP_SCOPE_ALL_WITH_HIDDEN def chg = Inr True
   \<and> (SET_FLAG_HIDDEN \<notin> def_flags def \<longrightarrow>
        scope_dump_default CONFIG_DUMP_SCOPE_ALL_WITHOUT_HIDDEN def chg = Inr True)
   \<and> (SET_FLAG_HIDDEN \<in> def_flags def \<and> change_byte chg (def_offset def) = Inr b \<longrightarrow>
        scope_dump_default CONFIG_DUMP_SCOPE_ALL_WITHOUT_HIDDEN def chg = Inr (b \<noteq> 0))
   \<and> (change_byte chg (def_offset def) = Inr b \<longrightarrow>
        scope_dump_default CONFIG_DUMP_SCOPE_SET def chg = Inr (b \<noteq> 0))
   \<and> scope_dump_default CONFIG_DUMP_SCOPE_CHANGED def chg = Inr False"
    by (simp add: scope_dump_default_def)
  from a settings_export_field_scope [of esc ctx info pu st chg "def" ctx1 children]
    settings_export_field_bool_default [of "def" pu st v info defaults ctx chg dd esc ctx1 children]
  show ?thesis by blast
qed

theorem scope_dump_default_rule_witness:
  "scope_dump_default CONFIG_DUMP_SCOPE_ALL_WITHOUT_HIDDEN
     (Setting_define SET_BOOL ''verbose'' 0 {} None) [(0, Change_cell 0 [])] = Inr True
   \<and> scope_dump_default CONFIG_DUMP_SCOPE_ALL_WITHOUT_HIDDEN
     (Setting_define SET_BOOL ''debug'' 0 {SET_FLAG_HIDDEN} None) [(0, Change_cell 0 [])] = Inr False
   \<and> scope_dump_default CONFIG_DUMP_SCOPE_ALL_WITHOUT_HIDDEN
     (Setting_define SET_BOOL ''debug'' 0 {SET_FLAG_HIDDEN} None) [(0, Change_cell 1 [])] = Inr True
   \<and> scope_dump_default CONFIG_DUMP_SCOPE_SET
     (Setting_define SET_BOOL ''debug'' 0 {SET_FLAG_HIDDEN} None) [(0, Change_cell 1 [])] = Inr True
   \<and> scope_dump_default CONFIG_DUMP_SCOPE_SET
     (Setting_define SET_BOOL ''verbose'' 0 {} None) [(0, Change_cell 0 [])] = Inr False"
  using
    scope_dump_default_rule [of "Setting_define SET_BOOL ''verbose'' 0 {} None"
      "[(0, Change_cell 0 [])]" 0]
    scope_dump_default_rule [of "Setting_define SET_BOOL ''debug'' 0 {SET_FLAG_HIDDEN} None"
      "[(0, Change_cell 0 [])]" 0]
    scope_dump_default_rule [of "Setting_define SET_BOOL ''debug'' 0 {SET_FLAG_HIDDEN} None"
      "[(0, Change_cell 1 [])]" 1]
  by (simp add: change_byte_def)

section \<open>Enumerations\<close>

lemma enum_emitted_iff:
  "config_export_type str (Str_cell (Some v)) (Some (Str_cell (Some dval))) SET_ENUM False dump =
     Inr (True, if take (length v) dval \<noteq> v then str @ v else str, dump)"
  by (simp add: config_export_type_def deref_str_def strncmp_differs_def cstr_nth_def Let_def)

text \<open>
  C4. An enumeration formatted without the forced-default flag is emitted exactly when its
  value is not a prefix of the default string: the character the code tests after the
  prefix is the terminator of the value itself, so the end of the default's chosen
  alternative is never checked. With the default \<open>foobar:baz\<close> the value \<open>foo\<close> is
  not emitted, although the chosen alternatives \<open>foo\<close> and \<open>foobar\<close> differ; with the
  default \<open>foo:bar\<close> it is not emitted either, and with \<open>bar:foo\<close> it is.
\<close>

theorem enum_prefix_of_default_not_emitted:
  "config_export_type [] (Str_cell (Some ''foo'')) (Some (Str_cell (Some ''foobar:baz''))) SET_ENUM
     False False = Inr (True, [], False)
   \<and> config_export_type [] (Str_cell (Some ''foo'')) (Some (Str_cell (Some ''foo:bar''))) SET_ENUM
     False False = Inr (True, [], False)
   \<and> config_export_type [] (Str_cell (Some ''foo'')) (Some (Str_cell (Some ''bar:foo''))) SET_ENUM
     False False = Inr (True, ''foo'', False)"
  by (simp add: enum_emitted_iff)

section \<open>Defaults inside unique section lists\<close>






section \<open>Invariants of the walker\<close>

lemma settings_export_lift_all:
  assumes rf: "\<And>c. R c c"
    and tr: "\<And>a b c. R a b \<Longrightarrow> R b c \<Longrightarrow> R a c"
    and fld: "\<And>esc ctx info pu st chg def ctx1 children.
        settings_export_field esc ctx info pu st chg def = Inr (ctx1, children) \<Longrightarrow> R ctx ctx1"
    and idx: "\<And>c v. R c (c\<lparr>ctx_section_idx := v\<rparr>)"
    and pre: "\<And>c p. R c (c\<lparr>ctx_prefix := p\<rparr>)"
  shows "\<forall>ctx'. settings_export esc ctx info pu st chg = Inr ctx' \<longrightarrow> R ctx ctx'"
    and "\<forall>ctx'. settings_export_defs esc ctx info defs pu st chg = Inr ctx' \<longrightarrow> R ctx ctx'"
    and "\<forall>ctx'. settings_export_children esc ctx def start i children = Inr ctx' \<longrightarrow> R ctx ctx'"
proof (induction esc ctx info pu st chg and esc ctx info defs pu st chg
    and esc ctx def start i children rule: settings_export_induct)
  case (export esc ctx info pu st chg)
  then show ?case by (simp add: settings_export.simps(1))
next
  case (defs_nil esc ctx info pu st chg)
  show ?case by (simp add: rf)
next
  case (defs_cons esc ctx info "def" defs pu st chg)
  show ?case
  proof (intro allI impI)
    fix ctx'
    assume "settings_export_defs esc ctx info (def # defs) pu st chg = Inr ctx'"
    then obtain ctx1 children ctx3 where
      f: "settings_export_field esc ctx info pu st chg def = Inr (ctx1, children)"
      and c: "settings_export_children esc
                (ctx1\<lparr>ctx_section_idx := ctx_section_idx ctx1 + of_nat (length children)\<rparr>)
                def (ctx_section_idx ctx1) 0 children = Inr ctx3"
      and r: "settings_export_defs esc ctx3 info defs pu st chg = Inr ctx'"
      by (rule settings_export_defs_ConsE)
    have "R ctx ctx1" by (rule fld [OF f])
    also have "R ctx1 (ctx1\<lparr>ctx_section_idx := ctx_section_idx ctx1 + of_nat (length children)\<rparr>)"
      by (rule idx)
    also (tr) have "R (ctx1\<lparr>ctx_section_idx := ctx_section_idx ctx1 + of_nat (length children)\<rparr>) ctx3"
      using defs_cons.IH(1) [OF f] c by simp
    also (tr) have "R ctx3 ctx'" using defs_cons.IH(2) [OF f c] r by simp
    finally (tr) show "R ctx ctx'" .
  qed
next
  case (children_nil esc ctx "def" start i)
  show ?case by (simp add: rf)
next
  case (children_cons esc ctx "def" start i child change_child rest)
  show ?case
  proof (intro allI impI)
    fix ctx'
    assume "settings_export_children esc ctx def start i ((child, change_child) # rest) = Inr ctx'"
    then obtain prefix2 list_info ctx1 where
      n: "setting_export_section_name esc (ctx_prefix ctx @ def_key def @ [SETTINGS_SEPARATOR])
            def child (start + of_nat i) = Inr prefix2"
      and li: "def_list_info def = Some list_info"
      and e: "settings_export esc (ctx\<lparr>ctx_prefix := prefix2 @ [SETTINGS_SEPARATOR]\<rparr>) list_info
                (def_type def = SET_DEFLIST_UNIQUE) child change_child = Inr ctx1"
      and r: "settings_export_children esc
                (ctx1\<lparr>ctx_prefix := take (length (ctx_prefix ctx)) (ctx_prefix ctx1)\<rparr>)
                def start (i + 1) rest = Inr ctx'"
      by (rule settings_export_children_ConsE)
    have "R ctx (ctx\<lparr>ctx_prefix := prefix2 @ [SETTINGS_SEPARATOR]\<rparr>)" by (rule pre)
    also have "R (ctx\<lparr>ctx_prefix := prefix2 @ [SETTINGS_SEPARATOR]\<rparr>) ctx1"
      using children_cons.IH(1) [OF n li] e by simp
    also (tr) have "R ctx1 (ctx1\<lparr>ctx_prefix := take (length (ctx_prefix ctx)) (ctx_prefix ctx1)\<rparr>)"
      by (rule pre)
    also (tr) have "R (ctx1\<lparr>ctx_prefix := take (length (ctx_prefix ctx)) (ctx_prefix ctx1)\<rparr>) ctx'"
      using children_cons.IH(2) [OF n li e] r by simp
    finally (tr) show "R ctx ctx'" .
  qed
qed

lemma keys_grow_trans: "keys_grow a b \<Longrightarrow> keys_grow b c \<Longrightarrow> keys_grow a c"
  by (auto simp: keys_grow_def)

lemma settings_export_leaf_keys: "keys_grow ctx (settings_export_leaf ctx info pu def dump)"
  by (auto simp: settings_export_leaf_def keys_grow_def Let_def)

lemma settings_export_switch_cases:
  assumes "settings_export_switch esc ctx def val dv chg dd = Inr (ctx', dump, children)"
  shows "(\<exists>str. ctx' = ctx\<lparr>ctx_value := str\<rparr>)
       \<or> ctx' = ctx
       \<or> (def_type def = SET_STRLIST \<and> children = [] \<and> \<not> dump \<and>
          (\<exists>strings. val = Strlist_cell (Some strings) \<and>
             ctx_prefix ctx @ def_key def \<notin> ctx_keys ctx \<and>
             ctx' = ctx\<lparr>ctx_keys := (if CONFIG_DUMP_FLAG_DEDUPLICATE_KEYS \<in> ctx_flags ctx
                                     then insert (ctx_prefix ctx @ def_key def) (ctx_keys ctx)
                                     else ctx_keys ctx),
                         ctx_calls := ctx_calls ctx @
                            (ctx_prefix ctx @ def_key def, [], CONFIG_KEY_LIST) #
                            strlist_callbacks (ctx_prefix ctx) (def_key def) strings\<rparr>))"
proof (cases "SETTING_TYPE_IS_DEFLIST (def_type def)")
  case True
  with assms show ?thesis
    by (auto simp: settings_export_switch_def split: cell.splits option.splits sum.splits if_splits)
next
  case False
  note nd = this
  show ?thesis
  proof (cases "def_type def = SET_STRLIST")
    case True
    with assms nd show ?thesis
      by (auto simp: settings_export_switch_def Let_def split: cell.splits option.splits if_splits)
  next
    case False
    with assms nd show ?thesis
      by (auto simp: settings_export_switch_def split: sum.splits prod.splits if_splits)
  qed
qed

lemma settings_export_switch_keys:
  "settings_export_switch esc ctx def val dv chg dd = Inr (ctx', dump, children) \<Longrightarrow>
   keys_grow ctx ctx'"
  by (drule settings_export_switch_cases) (auto simp: keys_grow_def)

lemma settings_export_field_keys:
  assumes "settings_export_field esc ctx info pu st chg def = Inr (ctx', children)"
  shows "keys_grow ctx ctx'"
proof -
  from assms obtain ctx1 dump dv dd where
    sw: "settings_export_switch esc (ctx\<lparr>ctx_value := []\<rparr>) def (cell_at st (def_offset def)) dv chg dd
           = Inr (ctx1, dump, children)"
    and c': "ctx' = settings_export_leaf ctx1 info pu def dump"
    by (auto simp: settings_export_field_def Let_def split: sum.splits prod.splits)
  have "keys_grow ctx (ctx\<lparr>ctx_value := []\<rparr>)" by (simp add: keys_grow_def)
  with settings_export_switch_keys [OF sw] settings_export_leaf_keys [of ctx1 info pu def dump]
  show ?thesis unfolding c' by (blast intro: keys_grow_trans)
qed

lemma settings_export_keys_all:
  "\<forall>ctx'. settings_export esc ctx info pu st chg = Inr ctx' \<longrightarrow> keys_grow ctx ctx'"
  "\<forall>ctx'. settings_export_defs esc ctx info defs pu st chg = Inr ctx' \<longrightarrow> keys_grow ctx ctx'"
  "\<forall>ctx'. settings_export_children esc ctx def start i children = Inr ctx' \<longrightarrow> keys_grow ctx ctx'"
proof -
  have rf: "\<And>c. keys_grow c c" by (simp add: keys_grow_def)
  have idx: "\<And>c v. keys_grow c (c\<lparr>ctx_section_idx := v\<rparr>)" by (simp add: keys_grow_def)
  have pre: "\<And>c p. keys_grow c (c\<lparr>ctx_prefix := p\<rparr>)" by (simp add: keys_grow_def)
  show "\<forall>ctx'. settings_export esc ctx info pu st chg = Inr ctx' \<longrightarrow> keys_grow ctx ctx'"
    by (rule settings_export_lift_all(1) [of keys_grow, OF rf keys_grow_trans settings_export_field_keys idx pre])
  show "\<forall>ctx'. settings_export_defs esc ctx info defs pu st chg = Inr ctx' \<longrightarrow> keys_grow ctx ctx'"
    by (rule settings_export_lift_all(2) [of keys_grow, OF rf keys_grow_trans settings_export_field_keys idx pre])
  show "\<forall>ctx'. settings_export_children esc ctx def start i children = Inr ctx' \<longrightarrow> keys_grow ctx ctx'"
    by (rule settings_export_lift_all(3) [of keys_grow, OF rf keys_grow_trans settings_export_field_keys idx pre])
qed

lemma settings_export_keys:
  "settings_export esc ctx info pu st chg = Inr ctx' \<Longrightarrow> keys_grow ctx ctx'"
  using settings_export_keys_all(1) by blast

lemma config_export_parser_keys:
  "config_export_parser esc ctx i sidx = Inr (r, ctx', sidx', err) \<Longrightarrow> keys_grow ctx ctx'"
  by (auto simp: config_export_parser_def Let_def keys_grow_def
      split: if_splits option.splits sum.splits dest!: settings_export_keys)

section \<open>String multimaps\<close>

lemma strlist_callbacks_pairs:
  "strlist_callbacks prefix key (concat (map (\<lambda>(k, v). [k, v]) pairs)) =
     map (\<lambda>(k, v). (prefix @ key @ [SETTINGS_SEPARATOR] @ k, v, CONFIG_KEY_NORMAL)) pairs"
  by (induction pairs) auto

lemma length_concat_pairs: "even (length (concat (map (\<lambda>(k, v). [k, v]) pairs)))"
  by (induction pairs) auto

lemma scope_dump_default_ok:
  "change_byte chg (def_offset def) = Inr b \<Longrightarrow> \<exists>dd. scope_dump_default scope def chg = Inr dd"
  by (cases scope) (auto simp: scope_dump_default_def)

lemma hide_list_defaults_ok:
  "change_byte chg (def_offset def) = Inr b \<Longrightarrow>
   \<exists>dv' dd'. hide_list_defaults flags info pu def val dv chg dd = Inr (dv', dd')"
  by (auto simp: hide_list_defaults_def)

lemma settings_export_field_strlist:
  assumes t: "def_type def = SET_STRLIST"
    and cb: "change_byte chg (def_offset def) = Inr b"
  shows "settings_export_field esc ctx info pu st chg def =
     (case settings_export_switch esc (ctx\<lparr>ctx_value := []\<rparr>) def (cell_at st (def_offset def))
             None chg False of
        Inl e \<Rightarrow> Inl e
      | Inr (ctx1, dump, children) \<Rightarrow> Inr (ctx1, children))"
proof -
  from scope_dump_default_ok [OF cb] obtain dd0 where
    s: "scope_dump_default (ctx_scope ctx) def chg = Inr dd0" by blast
  from hide_list_defaults_ok [OF cb] obtain dv dd where
    h: "hide_list_defaults (ctx_flags ctx) info pu def (cell_at st (def_offset def))
          (case info_defaults info of None \<Rightarrow> None
           | Some defaults \<Rightarrow> Some (cell_at defaults (def_offset def))) chg dd0 = Inr (dv, dd)"
    by blast
  have sw: "settings_export_switch esc c def v dv chg dd = settings_export_switch esc c def v None chg False"
    for c v
    using t by (simp add: settings_export_switch_def SETTING_TYPE_IS_DEFLIST_def)
  have lf: "settings_export_switch esc (ctx\<lparr>ctx_value := []\<rparr>) def v None chg False = Inr (c1, dump, ch)
     \<Longrightarrow> settings_export_leaf c1 info pu def dump = c1" for v c1 dump ch
    using t
    by (auto simp: settings_export_switch_def SETTING_TYPE_IS_DEFLIST_def settings_export_leaf_def
        Let_def split: cell.splits option.splits if_splits)
  show ?thesis
    using lf by (auto simp: settings_export_field_def Let_def s h sw split: sum.splits prod.splits)
qed

lemma settings_export_field_strlist_created:
  assumes t: "def_type def = SET_STRLIST"
    and cb: "change_byte chg (def_offset def) = Inr b"
    and v: "cell_at st (def_offset def) = Strlist_cell (Some (concat (map (\<lambda>(k, v). [k, v]) pairs)))"
    and k: "ctx_prefix ctx @ def_key def \<notin> ctx_keys ctx"
  shows "settings_export_field esc ctx info pu st chg def =
         Inr (ctx\<lparr>ctx_value := [],
                  ctx_keys := (if CONFIG_DUMP_FLAG_DEDUPLICATE_KEYS \<in> ctx_flags ctx
                               then insert (ctx_prefix ctx @ def_key def) (ctx_keys ctx)
                               else ctx_keys ctx),
                  ctx_calls := ctx_calls ctx @
                    (ctx_prefix ctx @ def_key def, [], CONFIG_KEY_LIST) #
                    map (\<lambda>(k, v). (ctx_prefix ctx @ def_key def @ [SETTINGS_SEPARATOR] @ k, v,
                                   CONFIG_KEY_NORMAL)) pairs\<rparr>, [])"
  using t v k length_concat_pairs [of pairs]
  by (auto simp: settings_export_field_strlist [OF t cb] settings_export_switch_def
      SETTING_TYPE_IS_DEFLIST_def Let_def strlist_callbacks_pairs)

lemma settings_export_field_strlist_skipped:
  assumes t: "def_type def = SET_STRLIST"
    and cb: "change_byte chg (def_offset def) = Inr b"
    and v: "cell_at st (def_offset def) = Strlist_cell None \<or>
            (\<exists>strings. cell_at st (def_offset def) = Strlist_cell (Some strings)) \<and>
            ctx_prefix ctx @ def_key def \<in> ctx_keys ctx"
  shows "settings_export_field esc ctx info pu st chg def = Inr (ctx\<lparr>ctx_value := []\<rparr>, [])"
  using t v
  by (auto simp: settings_export_field_strlist [OF t cb] settings_export_switch_def
      SETTING_TYPE_IS_DEFLIST_def Let_def)

lemma example_plugin_facts:
  "def_type example_plugin_def = SET_STRLIST"
  "def_key example_plugin_def = ''plugin''"
  "def_offset example_plugin_def = 0"
  "change_byte example_plugin_changes 0 = Inr 1"
  "cell_at example_plugin_set 0 =
     Strlist_cell (Some (concat (map (\<lambda>(k, v). [k, v])
       [(''quota'', ''maildir''), (''acl'', ''vfile'')])))"
  "cell_at [(0, Strlist_cell None)] 0 = Strlist_cell None"
  by (simp_all add: example_plugin_def_def example_plugin_changes_def example_plugin_set_def
      change_byte_def cell_at_def)

text \<open>
  C5, as amended. For a string multimap field whose change byte can be read: if its array
  was never created, or if its fully prefixed key is already in the emitted-keys set, the
  walker emits nothing for it; otherwise, its array holding the (subkey, value) pairs in
  order, the key is recorded when DEDUPLICATE_KEYS is set, one announcement entry with an
  empty value is emitted for the key, then one entry per pair with the key
  prefix, field, separator, subkey, and nothing else: no generic leaf entry and no
  children. The walker never removes a key from the set, so with DEDUPLICATE_KEYS set a
  later field with the same key emits nothing.
\<close>

theorem settings_export_strlist:
  assumes t: "def_type def = SET_STRLIST"
    and cb: "change_byte chg (def_offset def) = Inr b"
  shows
   "(cell_at st (def_offset def) = Strlist_cell None \<longrightarrow>
       settings_export_field esc ctx info pu st chg def = Inr (ctx\<lparr>ctx_value := []\<rparr>, []))
    \<and> (cell_at st (def_offset def) = Strlist_cell (Some strings) \<and>
        ctx_prefix ctx @ def_key def \<in> ctx_keys ctx \<longrightarrow>
       settings_export_field esc ctx info pu st chg def = Inr (ctx\<lparr>ctx_value := []\<rparr>, []))
    \<and> (cell_at st (def_offset def) = Strlist_cell (Some (concat (map (\<lambda>(k, v). [k, v]) pairs))) \<and>
        ctx_prefix ctx @ def_key def \<notin> ctx_keys ctx \<longrightarrow>
       settings_export_field esc ctx info pu st chg def =
         Inr (ctx\<lparr>ctx_value := [],
                  ctx_keys := (if CONFIG_DUMP_FLAG_DEDUPLICATE_KEYS \<in> ctx_flags ctx
                               then insert (ctx_prefix ctx @ def_key def) (ctx_keys ctx)
                               else ctx_keys ctx),
                  ctx_calls := ctx_calls ctx @
                    (ctx_prefix ctx @ def_key def, [], CONFIG_KEY_LIST) #
                    map (\<lambda>(k, v). (ctx_prefix ctx @ def_key def @ [SETTINGS_SEPARATOR] @ k, v,
                                   CONFIG_KEY_NORMAL)) pairs\<rparr>, []))
    \<and> (settings_export esc' ctx1 info' pu' st' chg' = Inr ctx2 \<longrightarrow> ctx_keys ctx1 \<subseteq> ctx_keys ctx2)"
  using settings_export_field_strlist_created [OF t cb, of st pairs ctx esc info pu]
    settings_export_field_strlist_skipped [OF t cb, of st ctx esc info pu]
    settings_export_keys [of esc' ctx1 info' pu' st' chg' ctx2]
  by (auto simp: keys_grow_def)

theorem settings_export_strlist_witness:
  "settings_export_field id
       (config_export_init CONFIG_DUMP_SCOPE_CHANGED {CONFIG_DUMP_FLAG_DEDUPLICATE_KEYS})
       example_plugin_info False example_plugin_set example_plugin_changes example_plugin_def =
     Inr ((config_export_init CONFIG_DUMP_SCOPE_CHANGED {CONFIG_DUMP_FLAG_DEDUPLICATE_KEYS})
            \<lparr>ctx_keys := {''plugin''},
             ctx_calls := [(''plugin'', [], CONFIG_KEY_LIST),
                           (''plugin/quota'', ''maildir'', CONFIG_KEY_NORMAL),
                           (''plugin/acl'', ''vfile'', CONFIG_KEY_NORMAL)]\<rparr>, [])
   \<and> settings_export_field id
       ((config_export_init CONFIG_DUMP_SCOPE_CHANGED {CONFIG_DUMP_FLAG_DEDUPLICATE_KEYS})
          \<lparr>ctx_keys := {''plugin''}\<rparr>)
       example_plugin_info False example_plugin_set example_plugin_changes example_plugin_def =
     Inr ((config_export_init CONFIG_DUMP_SCOPE_CHANGED {CONFIG_DUMP_FLAG_DEDUPLICATE_KEYS})
            \<lparr>ctx_keys := {''plugin''}\<rparr>, [])
   \<and> settings_export_field id
       (config_export_init CONFIG_DUMP_SCOPE_CHANGED {CONFIG_DUMP_FLAG_DEDUPLICATE_KEYS})
       example_plugin_info False [(0, Strlist_cell None)] example_plugin_changes example_plugin_def =
     Inr (config_export_init CONFIG_DUMP_SCOPE_CHANGED {CONFIG_DUMP_FLAG_DEDUPLICATE_KEYS}, [])"
  using
    settings_export_strlist [of example_plugin_def example_plugin_changes 1 example_plugin_set id
      "config_export_init CONFIG_DUMP_SCOPE_CHANGED {CONFIG_DUMP_FLAG_DEDUPLICATE_KEYS}"
      example_plugin_info False "[]"
      "[(''quota'', ''maildir''), (''acl'', ''vfile'')]"]
    settings_export_strlist [of example_plugin_def example_plugin_changes 1 example_plugin_set id
      "(config_export_init CONFIG_DUMP_SCOPE_CHANGED {CONFIG_DUMP_FLAG_DEDUPLICATE_KEYS})
          \<lparr>ctx_keys := {''plugin''}\<rparr>"
      example_plugin_info False "[''quota'', ''maildir'', ''acl'', ''vfile'']" "[]"]
    settings_export_strlist [of example_plugin_def example_plugin_changes 1 "[(0, Strlist_cell None)]" id
      "config_export_init CONFIG_DUMP_SCOPE_CHANGED {CONFIG_DUMP_FLAG_DEDUPLICATE_KEYS}"
      example_plugin_info False "[]" "[]"]
  by (simp add: example_plugin_facts config_export_init_def SETTINGS_SEPARATOR_def)

text \<open>
  The claim as it stands fails for a multimap whose array was never created: its key is
  not in the set, and no announcement is emitted.
\<close>

theorem strlist_uncreated_emits_nothing:
  "ctx_calls (config_export_init CONFIG_DUMP_SCOPE_ALL_WITH_HIDDEN {}) = [] \<and>
   ''plugin'' \<notin> ctx_keys (config_export_init CONFIG_DUMP_SCOPE_ALL_WITH_HIDDEN {}) \<and>
   settings_export id (config_export_init CONFIG_DUMP_SCOPE_ALL_WITH_HIDDEN {})
     example_plugin_info False [(0, Strlist_cell None)] example_plugin_changes =
   Inr (config_export_init CONFIG_DUMP_SCOPE_ALL_WITH_HIDDEN {})"
  by (simp add: settings_export.simps(1) example_plugin_info_def
      settings_export_field_strlist_skipped [where b = 1] example_plugin_facts config_export_init_def)

section \<open>Export without deduplication\<close>

text \<open>
  C10. With DEDUPLICATE_KEYS clear and the emitted-keys set empty, as
  \<^verbatim>\<open>config_export_init\<close> leaves it, the set is still empty after every step of the
  walker: after a field, after a whole call of \<^verbatim>\<open>settings_export\<close>, after
  \<^verbatim>\<open>config_export_parser\<close>. So the lookup suppresses nothing: a leaf with content is
  emitted whenever its key is produced, and so are the announcement and the pairs of a
  string multimap whose array was created.
\<close>

theorem no_dedup_nothing_suppressed:
  assumes nd: "CONFIG_DUMP_FLAG_DEDUPLICATE_KEYS \<notin> ctx_flags ctx"
    and em: "ctx_keys ctx = {}"
  shows
   "ctx_keys (config_export_init scope (flags - {CONFIG_DUMP_FLAG_DEDUPLICATE_KEYS})) = {}
    \<and> (settings_export_field esc ctx info pu st chg def = Inr (ctx1, children) \<longrightarrow>
         ctx_keys ctx1 = {})
    \<and> (settings_export esc ctx info pu st chg = Inr ctx2 \<longrightarrow> ctx_keys ctx2 = {})
    \<and> (config_export_parser esc ctx parser_idx section_idx = Inr (r, ctx3, section_idx', err) \<longrightarrow>
         ctx_keys ctx3 = {})
    \<and> (ctx_value ctx \<noteq> [] \<or> dump \<longrightarrow>
         ctx_calls (settings_export_leaf ctx info pu def dump) =
           ctx_calls ctx @
           [(ctx_prefix ctx @ def_key def, ctx_value ctx,
             if def_offset def + 1 = info_type_offset1 info \<and> pu then CONFIG_KEY_UNIQUE_KEY
             else if SETTING_TYPE_IS_DEFLIST (def_type def) then CONFIG_KEY_LIST
             else CONFIG_KEY_NORMAL)])
    \<and> (def_type def = SET_STRLIST \<and> change_byte chg (def_offset def) = Inr b \<and>
        cell_at st (def_offset def) =
          Strlist_cell (Some (concat (map (\<lambda>(k, v). [k, v]) pairs))) \<longrightarrow>
         settings_export_field esc ctx info pu st chg def =
           Inr (ctx\<lparr>ctx_value := [],
                    ctx_calls := ctx_calls ctx @
                      (ctx_prefix ctx @ def_key def, [], CONFIG_KEY_LIST) #
                      map (\<lambda>(k, v). (ctx_prefix ctx @ def_key def @ [SETTINGS_SEPARATOR] @ k, v,
                                     CONFIG_KEY_NORMAL)) pairs\<rparr>, []))"
proof -
  have a: "ctx_keys ctx1 = {}" if "settings_export_field esc ctx info pu st chg def = Inr (ctx1, children)"
    using settings_export_field_keys [OF that] nd em by (simp add: keys_grow_def)
  have b: "ctx_keys ctx2 = {}" if "settings_export esc ctx info pu st chg = Inr ctx2"
    using settings_export_keys [OF that] nd em by (simp add: keys_grow_def)
  have c: "ctx_keys ctx3 = {}"
    if "config_export_parser esc ctx parser_idx section_idx = Inr (r, ctx3, section_idx', err)"
    using config_export_parser_keys [OF that] nd em by (simp add: keys_grow_def)
  have d: "ctx_calls (settings_export_leaf ctx info pu def dump) =
           ctx_calls ctx @
           [(ctx_prefix ctx @ def_key def, ctx_value ctx,
             if def_offset def + 1 = info_type_offset1 info \<and> pu then CONFIG_KEY_UNIQUE_KEY
             else if SETTING_TYPE_IS_DEFLIST (def_type def) then CONFIG_KEY_LIST
             else CONFIG_KEY_NORMAL)]" if "ctx_value ctx \<noteq> [] \<or> dump"
    using that nd em by (auto simp: settings_export_leaf_def Let_def)
  have e: "settings_export_field esc ctx info pu st chg def =
           Inr (ctx\<lparr>ctx_value := [],
                    ctx_calls := ctx_calls ctx @
                      (ctx_prefix ctx @ def_key def, [], CONFIG_KEY_LIST) #
                      map (\<lambda>(k, v). (ctx_prefix ctx @ def_key def @ [SETTINGS_SEPARATOR] @ k, v,
                                     CONFIG_KEY_NORMAL)) pairs\<rparr>, [])"
    if "def_type def = SET_STRLIST" "change_byte chg (def_offset def) = Inr b"
      "cell_at st (def_offset def) = Strlist_cell (Some (concat (map (\<lambda>(k, v). [k, v]) pairs)))"
    using settings_export_field_strlist_created [OF that, of ctx esc info pu] nd em by simp
  have i: "ctx_keys (config_export_init scope (flags - {CONFIG_DUMP_FLAG_DEDUPLICATE_KEYS})) = {}"
    by (simp add: config_export_init_def)
  from a b c d e i show ?thesis by blast
qed

theorem no_dedup_nothing_suppressed_witness:
  "settings_export_field id (config_export_init CONFIG_DUMP_SCOPE_CHANGED {})
       example_plugin_info False example_plugin_set example_plugin_changes example_plugin_def =
     Inr ((config_export_init CONFIG_DUMP_SCOPE_CHANGED {})
            \<lparr>ctx_calls := [(''plugin'', [], CONFIG_KEY_LIST),
                           (''plugin/quota'', ''maildir'', CONFIG_KEY_NORMAL),
                           (''plugin/acl'', ''vfile'', CONFIG_KEY_NORMAL)]\<rparr>, [])
   \<and> settings_export_field id
       ((config_export_init CONFIG_DUMP_SCOPE_CHANGED {})
            \<lparr>ctx_calls := [(''plugin'', [], CONFIG_KEY_LIST),
                           (''plugin/quota'', ''maildir'', CONFIG_KEY_NORMAL),
                           (''plugin/acl'', ''vfile'', CONFIG_KEY_NORMAL)]\<rparr>)
       example_plugin_info False example_plugin_set example_plugin_changes example_plugin_def =
     Inr ((config_export_init CONFIG_DUMP_SCOPE_CHANGED {})
            \<lparr>ctx_calls := [(''plugin'', [], CONFIG_KEY_LIST),
                           (''plugin/quota'', ''maildir'', CONFIG_KEY_NORMAL),
                           (''plugin/acl'', ''vfile'', CONFIG_KEY_NORMAL),
                           (''plugin'', [], CONFIG_KEY_LIST),
                           (''plugin/quota'', ''maildir'', CONFIG_KEY_NORMAL),
                           (''plugin/acl'', ''vfile'', CONFIG_KEY_NORMAL)]\<rparr>, [])
   \<and> ctx_calls (settings_export_leaf
        ((config_export_init CONFIG_DUMP_SCOPE_CHANGED {})
            \<lparr>ctx_calls := [(''name'', [], CONFIG_KEY_UNIQUE_KEY)]\<rparr>)
        example_service_info True (Setting_define SET_STR ''name'' 0 {} None) True) =
     [(''name'', [], CONFIG_KEY_UNIQUE_KEY), (''name'', [], CONFIG_KEY_UNIQUE_KEY)]"
proof -
  let ?c = "config_export_init CONFIG_DUMP_SCOPE_CHANGED {}"
  let ?e = "[(''plugin'', [], CONFIG_KEY_LIST),
             (''plugin/quota'', ''maildir'', CONFIG_KEY_NORMAL),
             (''plugin/acl'', ''vfile'', CONFIG_KEY_NORMAL)]"
  let ?n = "Setting_define SET_STR ''name'' 0 {} None"
  have nd: "CONFIG_DUMP_FLAG_DEDUPLICATE_KEYS \<notin> ctx_flags (?c\<lparr>ctx_calls := k\<rparr>)"
    and em: "ctx_keys (?c\<lparr>ctx_calls := k\<rparr>) = {}" for k
    by (simp_all add: config_export_init_def)
  have c0: "?c\<lparr>ctx_calls := []\<rparr> = ?c" by (simp add: config_export_init_def)
  have h: "def_type example_plugin_def = SET_STRLIST \<and>
      change_byte example_plugin_changes (def_offset example_plugin_def) = Inr 1 \<and>
      cell_at example_plugin_set (def_offset example_plugin_def) =
        Strlist_cell (Some (concat (map (\<lambda>(k, v). [k, v])
          [(''quota'', ''maildir''), (''acl'', ''vfile'')])))"
    by (simp add: example_plugin_facts)
  note t = no_dedup_nothing_suppressed [OF nd em, where esc = id and info = example_plugin_info
      and pu = False and st = example_plugin_set and chg = example_plugin_changes
      and ?def = example_plugin_def and b = 1
      and pairs = "[(''quota'', ''maildir''), (''acl'', ''vfile'')]"]
  note s = t [THEN conjunct2, THEN conjunct2, THEN conjunct2, THEN conjunct2, THEN conjunct2,
      THEN mp, OF h]
  have a: "settings_export_field id ?c example_plugin_info False example_plugin_set
        example_plugin_changes example_plugin_def = Inr (?c\<lparr>ctx_calls := ?e\<rparr>, [])"
    using s [of "[]"]
    by (simp add: c0 example_plugin_facts config_export_init_def SETTINGS_SEPARATOR_def)
  have b: "settings_export_field id (?c\<lparr>ctx_calls := ?e\<rparr>) example_plugin_info False
        example_plugin_set example_plugin_changes example_plugin_def =
      Inr (?c\<lparr>ctx_calls := ?e @ ?e\<rparr>, [])"
    using s [of ?e]
    by (simp add: example_plugin_facts config_export_init_def SETTINGS_SEPARATOR_def)
  note u = no_dedup_nothing_suppressed [OF nd em, where info = example_service_info
      and pu = True and ?def = ?n and dump = True,
      THEN conjunct2, THEN conjunct2, THEN conjunct2, THEN conjunct2, THEN conjunct1]
  have c: "ctx_calls (settings_export_leaf (?c\<lparr>ctx_calls := [(''name'', [], CONFIG_KEY_UNIQUE_KEY)]\<rparr>)
        example_service_info True ?n True) =
     [(''name'', [], CONFIG_KEY_UNIQUE_KEY), (''name'', [], CONFIG_KEY_UNIQUE_KEY)]"
    using u [of "[(''name'', [], CONFIG_KEY_UNIQUE_KEY)]"]
    by (simp add: config_export_init_def example_service_info_def)
  from a b c show ?thesis by simp
qed

section \<open>Delayed errors\<close>

lemma config_export_parser_delayed_error:
  "parser_idx < length (ctx_module_parsers ctx) \<Longrightarrow>
   delayed_error (ctx_module_parsers ctx ! parser_idx) = Some err \<Longrightarrow>
   config_export_parser esc ctx parser_idx section_idx = Inr (- 1, ctx, section_idx, Some err)"
  by (simp add: config_export_parser_def)

lemma config_export_parser_no_error:
  "delayed_error (ctx_module_parsers ctx ! parser_idx) = None \<Longrightarrow>
   config_export_parser esc ctx parser_idx section_idx = Inr (r, ctx', section_idx', err) \<Longrightarrow>
   r = 0 \<and> err = None"
  by (auto simp: config_export_parser_def Let_def split: if_splits sum.splits)

lemma export_first_parsers:
  "export_first esc ctx section_idx k = Inr (ctx', section_idx') \<Longrightarrow>
   ctx_module_parsers ctx' = ctx_module_parsers ctx"
proof (induction k arbitrary: ctx' section_idx')
  case 0
  then show ?case by simp
next
  case (Suc k)
  then show ?case
    by (auto split: sum.splits prod.splits dest: config_export_parser_parsers)
qed

lemma all_parsers_loop_from:
  assumes k: "k \<le> length (ctx_module_parsers ctx)"
    and ok: "\<forall>j<k. delayed_error (ctx_module_parsers ctx ! j) = None"
    and stop: "k < length (ctx_module_parsers ctx) \<longrightarrow>
                 delayed_error (ctx_module_parsers ctx ! k) = Some err"
  shows "i \<le> k \<Longrightarrow> export_first esc ctx section_idx i = Inr (ci, si) \<Longrightarrow>
    config_export_all_parsers_loop esc ci i si =
      (case export_first esc ctx section_idx k of
         Inl e \<Rightarrow> Inl e
       | Inr (ctx', section_idx') \<Rightarrow>
           Inr (if k < length (ctx_module_parsers ctx) then - 1 else 0, ctx', section_idx',
                if k < length (ctx_module_parsers ctx) then [err] else []))"
proof (induction "k - i" arbitrary: i ci si)
  case 0
  then have ik: "i = k" by simp
  from export_first_parsers [OF "0.prems"(2)]
  have ps: "ctx_module_parsers ci = ctx_module_parsers ctx" .
  show ?case
  proof (cases "k < length (ctx_module_parsers ctx)")
    case True
    with stop have de: "delayed_error (ctx_module_parsers ci ! k) = Some err" by (simp add: ps)
    from True have lt: "k < length (ctx_module_parsers ci)" by (simp add: ps)
    show ?thesis
      using "0.prems"(2) True lt
      by (subst config_export_all_parsers_loop.simps)
         (simp add: ik config_export_parser_delayed_error [OF lt de])
  next
    case False
    then show ?thesis
      using "0.prems"(2)
      by (subst config_export_all_parsers_loop.simps) (simp add: ik ps)
  qed
next
  case (Suc d)
  then have lt: "i < k" by simp
  from export_first_parsers [OF Suc.prems(2)]
  have ps: "ctx_module_parsers ci = ctx_module_parsers ctx" .
  from lt k have il: "i < length (ctx_module_parsers ci)" by (simp add: ps)
  from lt ok have ne: "delayed_error (ctx_module_parsers ci ! i) = None" by (simp add: ps)
  show ?case
  proof (cases "config_export_parser esc ci i si")
    case (Inl e)
    have "export_first esc ctx section_idx j = Inl e" if "i < j" for j
      using that
    proof (induction j)
      case 0
      then show ?case by simp
    next
      case (Suc j)
      show ?case
      proof (cases "i = j")
        case True
        then show ?thesis using Suc.prems(1) Inl \<open>export_first esc ctx section_idx i = Inr (ci, si)\<close>
          by simp
      next
        case False
        with Suc have "export_first esc ctx section_idx j = Inl e" by simp
        then show ?thesis by simp
      qed
    qed
    with lt have "export_first esc ctx section_idx k = Inl e" by blast
    then show ?thesis
      using il Inl by (subst config_export_all_parsers_loop.simps) simp
  next
    case (Inr res)
    then obtain r c' s' er where res: "config_export_parser esc ci i si = Inr (r, c', s', er)"
      by (cases res) auto
    from config_export_parser_no_error [OF ne res] have r0: "r = 0" by simp
    have ef: "export_first esc ctx section_idx (i + 1) = Inr (c', s')"
      using Suc.prems(2) res by simp
    have "config_export_all_parsers_loop esc ci i si =
          config_export_all_parsers_loop esc c' (i + 1) s'"
      using il res r0 by (subst config_export_all_parsers_loop.simps) simp
    also have "\<dots> = (case export_first esc ctx section_idx k of
         Inl e \<Rightarrow> Inl e
       | Inr (ctx', section_idx') \<Rightarrow>
           Inr (if k < length (ctx_module_parsers ctx) then - 1 else 0, ctx', section_idx',
                if k < length (ctx_module_parsers ctx) then [err] else []))"
      using Suc.hyps(1) [of "i + 1" c' s'] Suc.hyps(2) lt ef by simp
    finally show ?thesis .
  qed
qed

lemma config_export_free_once: "count_list (config_export_free ctx) Pool_unref = 1"
  by (simp add: config_export_free_def)

text \<open>
  C6. For a module parser with a delayed error, export-one returns -1 at once with the
  stored message and leaves the context, hence the entries emitted, and the section index
  as they were. Export-all runs export-one over the module parsers in order: if parser
  \<open>k\<close> is the first with a delayed error, it stops there, having exported the \<open>k\<close>
  parsers before it, logs that error and returns -1; if no parser has one it exports them
  all and returns 0. Whenever it returns, it has released the memory pool exactly once.
\<close>

theorem config_export_delayed_error:
  "(parser_idx < length (ctx_module_parsers ctx) \<and>
    delayed_error (ctx_module_parsers ctx ! parser_idx) = Some err \<longrightarrow>
      config_export_parser esc ctx parser_idx section_idx = Inr (- 1, ctx, section_idx, Some err))
   \<and> (k < length (ctx_module_parsers ctx) \<and>
       delayed_error (ctx_module_parsers ctx ! k) = Some err \<and>
       (\<forall>j<k. delayed_error (ctx_module_parsers ctx ! j) = None) \<longrightarrow>
      config_export_all_parsers esc ctx section_idx =
        (case export_first esc ctx section_idx k of
           Inl e \<Rightarrow> Inl e
         | Inr (ctx', section_idx') \<Rightarrow>
             Inr \<lparr>all_ret = - 1, all_section_idx = section_idx', all_calls = ctx_calls ctx',
                  all_errors = [err], all_teardown = config_export_free ctx'\<rparr>))
   \<and> ((\<forall>j<length (ctx_module_parsers ctx). delayed_error (ctx_module_parsers ctx ! j) = None) \<longrightarrow>
      config_export_all_parsers esc ctx section_idx =
        (case export_first esc ctx section_idx (length (ctx_module_parsers ctx)) of
           Inl e \<Rightarrow> Inl e
         | Inr (ctx', section_idx') \<Rightarrow>
             Inr \<lparr>all_ret = 0, all_section_idx = section_idx', all_calls = ctx_calls ctx',
                  all_errors = [], all_teardown = config_export_free ctx'\<rparr>))
   \<and> (config_export_all_parsers esc ctx section_idx = Inr res \<longrightarrow>
      count_list (all_teardown res) Pool_unref = 1 \<and> (all_ret res = 0 \<or> all_ret res = - 1))"
proof -
  let ?ps = "ctx_module_parsers ctx"
  have start: "export_first esc ctx section_idx 0 = Inr (ctx, section_idx)" by simp
  have fail: "config_export_all_parsers esc ctx section_idx =
        (case export_first esc ctx section_idx k of
           Inl e \<Rightarrow> Inl e
         | Inr (ctx', section_idx') \<Rightarrow>
             Inr \<lparr>all_ret = - 1, all_section_idx = section_idx', all_calls = ctx_calls ctx',
                  all_errors = [err], all_teardown = config_export_free ctx'\<rparr>)"
    if "k < length ?ps" "delayed_error (?ps ! k) = Some err"
       "\<forall>j<k. delayed_error (?ps ! j) = None" for k err
    using all_parsers_loop_from [of k ctx err 0 esc section_idx ctx section_idx] that start
    by (auto simp: config_export_all_parsers_def split: sum.splits)
  have good: "config_export_all_parsers esc ctx section_idx =
        (case export_first esc ctx section_idx (length ?ps) of
           Inl e \<Rightarrow> Inl e
         | Inr (ctx', section_idx') \<Rightarrow>
             Inr \<lparr>all_ret = 0, all_section_idx = section_idx', all_calls = ctx_calls ctx',
                  all_errors = [], all_teardown = config_export_free ctx'\<rparr>)"
    if "\<forall>j<length ?ps. delayed_error (?ps ! j) = None"
    using all_parsers_loop_from [of "length ?ps" ctx undefined 0 esc section_idx ctx section_idx]
      that start
    by (auto simp: config_export_all_parsers_def split: sum.splits)
  have once: "count_list (all_teardown res) Pool_unref = 1 \<and> (all_ret res = 0 \<or> all_ret res = - 1)"
    if r: "config_export_all_parsers esc ctx section_idx = Inr res"
  proof (cases "\<forall>j<length ?ps. delayed_error (?ps ! j) = None")
    case True
    from good [OF True] r show ?thesis
      by (auto simp: config_export_free_once split: sum.splits prod.splits)
  next
    case False
    define k where "k = (LEAST j. j < length ?ps \<and> delayed_error (?ps ! j) \<noteq> None)"
    from False have ex: "\<exists>j. j < length ?ps \<and> delayed_error (?ps ! j) \<noteq> None" by blast
    from LeastI_ex [OF ex] have kp: "k < length ?ps" "delayed_error (?ps ! k) \<noteq> None"
      unfolding k_def by blast+
    have "\<forall>j<k. delayed_error (?ps ! j) = None"
    proof (intro allI impI)
      fix j assume "j < k"
      with not_less_Least [of j "\<lambda>j. j < length ?ps \<and> delayed_error (?ps ! j) \<noteq> None"] kp(1)
      show "delayed_error (?ps ! j) = None" unfolding k_def by auto
    qed
    moreover from kp obtain e where "delayed_error (?ps ! k) = Some e" by auto
    ultimately show ?thesis
      using fail [of k e] kp(1) r
      by (auto simp: config_export_free_once split: sum.splits prod.splits)
  qed
  show ?thesis
    using config_export_parser_delayed_error [of parser_idx ctx err esc section_idx]
      fail [of k err] good once by blast
qed

theorem config_export_delayed_error_witness:
  "config_export_parser id
     (config_export_set_module_parsers (config_export_init CONFIG_DUMP_SCOPE_CHANGED {})
        [example_plugin_parser, example_failed_parser, example_plugin_parser]) 1 0 =
     Inr (- 1,
          config_export_set_module_parsers (config_export_init CONFIG_DUMP_SCOPE_CHANGED {})
            [example_plugin_parser, example_failed_parser, example_plugin_parser],
          0, Some ''unknown setting'')
   \<and> config_export_all_parsers id
     (config_export_set_module_parsers (config_export_init CONFIG_DUMP_SCOPE_CHANGED {})
        [example_plugin_parser, example_failed_parser, example_plugin_parser]) 0 =
     Inr \<lparr>all_ret = - 1, all_section_idx = 0,
          all_calls = [(''plugin'', [], CONFIG_KEY_LIST),
                       (''plugin/quota'', ''maildir'', CONFIG_KEY_NORMAL),
                       (''plugin/acl'', ''vfile'', CONFIG_KEY_NORMAL)],
          all_errors = [''unknown setting''],
          all_teardown = [Hash_table_destroy, Pool_unref]\<rparr>
   \<and> config_export_all_parsers id
     (config_export_set_module_parsers (config_export_init CONFIG_DUMP_SCOPE_CHANGED {})
        [example_plugin_parser, example_plugin_parser]) 0 =
     Inr \<lparr>all_ret = 0, all_section_idx = 0,
          all_calls = [(''plugin'', [], CONFIG_KEY_LIST),
                       (''plugin/quota'', ''maildir'', CONFIG_KEY_NORMAL),
                       (''plugin/acl'', ''vfile'', CONFIG_KEY_NORMAL),
                       (''plugin'', [], CONFIG_KEY_LIST),
                       (''plugin/quota'', ''maildir'', CONFIG_KEY_NORMAL),
                       (''plugin/acl'', ''vfile'', CONFIG_KEY_NORMAL)],
          all_errors = [],
          all_teardown = [Hash_table_destroy, Pool_unref]\<rparr>"
proof -
  let ?c3 = "config_export_set_module_parsers (config_export_init CONFIG_DUMP_SCOPE_CHANGED {})
        [example_plugin_parser, example_failed_parser, example_plugin_parser]"
  let ?c2 = "config_export_set_module_parsers (config_export_init CONFIG_DUMP_SCOPE_CHANGED {})
        [example_plugin_parser, example_plugin_parser]"
  have ps3: "ctx_module_parsers ?c3 = [example_plugin_parser, example_failed_parser, example_plugin_parser]"
    and ps2: "ctx_module_parsers ?c2 = [example_plugin_parser, example_plugin_parser]"
    by (simp_all add: config_export_set_module_parsers_def)
  have de: "delayed_error example_plugin_parser = None"
    "delayed_error example_failed_parser = Some ''unknown setting''"
    by (simp_all add: example_plugin_parser_def example_failed_parser_def)
  have one: "config_export_parser id c i s =
      Inr (0, c\<lparr>ctx_value := [], ctx_section_idx := s,
                ctx_calls := ctx_calls c @
                  [(''plugin'', [], CONFIG_KEY_LIST),
                   (''plugin/quota'', ''maildir'', CONFIG_KEY_NORMAL),
                   (''plugin/acl'', ''vfile'', CONFIG_KEY_NORMAL)]\<rparr>, s, None)"
    if "i < length (ctx_module_parsers c)" "ctx_module_parsers c ! i = example_plugin_parser"
      "ctx_prefix c = []" "ctx_keys c = {}" "ctx_flags c = {}" for c i s
    using that example_plugin_export [of "c\<lparr>ctx_section_idx := s\<rparr>"]
    by (simp add: config_export_parser_def example_plugin_parser_def)
  have f1: "export_first id ?c3 0 1 =
      Inr (?c3\<lparr>ctx_value := [], ctx_section_idx := 0,
                ctx_calls := [(''plugin'', [], CONFIG_KEY_LIST),
                   (''plugin/quota'', ''maildir'', CONFIG_KEY_NORMAL),
                   (''plugin/acl'', ''vfile'', CONFIG_KEY_NORMAL)]\<rparr>, 0)"
    using one [of 0 ?c3 0]
    by (simp add: config_export_set_module_parsers_def config_export_init_def)
  have f2: "export_first id ?c2 0 2 =
      Inr (?c2\<lparr>ctx_value := [], ctx_section_idx := 0,
                ctx_calls := [(''plugin'', [], CONFIG_KEY_LIST),
                   (''plugin/quota'', ''maildir'', CONFIG_KEY_NORMAL),
                   (''plugin/acl'', ''vfile'', CONFIG_KEY_NORMAL),
                   (''plugin'', [], CONFIG_KEY_LIST),
                   (''plugin/quota'', ''maildir'', CONFIG_KEY_NORMAL),
                   (''plugin/acl'', ''vfile'', CONFIG_KEY_NORMAL)]\<rparr>, 0)"
    using one [of 0 ?c2 0]
      one [of 1 "?c2\<lparr>ctx_value := [], ctx_section_idx := 0,
                ctx_calls := [(''plugin'', [], CONFIG_KEY_LIST),
                   (''plugin/quota'', ''maildir'', CONFIG_KEY_NORMAL),
                   (''plugin/acl'', ''vfile'', CONFIG_KEY_NORMAL)]\<rparr>" 0]
    by (simp add: config_export_set_module_parsers_def config_export_init_def numeral_2_eq_2)
  note t3 = config_export_delayed_error [where ctx = ?c3 and esc = id and section_idx = 0
      and parser_idx = 1 and k = 1 and err = "''unknown setting''"]
  note t2 = config_export_delayed_error [where ctx = ?c2 and esc = id and section_idx = 0]
  have fr: "config_export_free (c\<lparr>ctx_value := v, ctx_section_idx := s, ctx_calls := k\<rparr>)
      = [Hash_table_destroy, Pool_unref]"
    if "ctx_dup_module_parsers c = None" for c v s k
    using that by (simp add: config_export_free_def)
  have dup: "ctx_dup_module_parsers ?c3 = None" "ctx_dup_module_parsers ?c2 = None"
    by (simp_all add: config_export_set_module_parsers_def config_export_init_def)
  have h1: "1 < length (ctx_module_parsers ?c3) \<and>
      delayed_error (ctx_module_parsers ?c3 ! 1) = Some ''unknown setting''"
    by (simp add: ps3 de)
  have h2: "1 < length (ctx_module_parsers ?c3) \<and>
      delayed_error (ctx_module_parsers ?c3 ! 1) = Some ''unknown setting'' \<and>
      (\<forall>j<1. delayed_error (ctx_module_parsers ?c3 ! j) = None)"
    by (simp add: ps3 de)
  have h3: "\<forall>j<length (ctx_module_parsers ?c2). delayed_error (ctx_module_parsers ?c2 ! j) = None"
    by (simp add: ps2 de less_Suc_eq numeral_2_eq_2)
  have l2: "length (ctx_module_parsers ?c2) = 2" by (simp add: ps2)
  have a: "config_export_parser id ?c3 1 0 = Inr (- 1, ?c3, 0, Some ''unknown setting'')"
    by (rule t3 [THEN conjunct1, THEN mp, OF h1])
  have b: "config_export_all_parsers id ?c3 0 =
     Inr \<lparr>all_ret = - 1, all_section_idx = 0,
          all_calls = [(''plugin'', [], CONFIG_KEY_LIST),
                       (''plugin/quota'', ''maildir'', CONFIG_KEY_NORMAL),
                       (''plugin/acl'', ''vfile'', CONFIG_KEY_NORMAL)],
          all_errors = [''unknown setting''],
          all_teardown = [Hash_table_destroy, Pool_unref]\<rparr>"
    unfolding t3 [THEN conjunct2, THEN conjunct1, THEN mp, OF h2] f1
    by (simp add: fr [OF dup(1)])
  have c: "config_export_all_parsers id ?c2 0 =
     Inr \<lparr>all_ret = 0, all_section_idx = 0,
          all_calls = [(''plugin'', [], CONFIG_KEY_LIST),
                       (''plugin/quota'', ''maildir'', CONFIG_KEY_NORMAL),
                       (''plugin/acl'', ''vfile'', CONFIG_KEY_NORMAL),
                       (''plugin'', [], CONFIG_KEY_LIST),
                       (''plugin/quota'', ''maildir'', CONFIG_KEY_NORMAL),
                       (''plugin/acl'', ''vfile'', CONFIG_KEY_NORMAL)],
          all_errors = [],
          all_teardown = [Hash_table_destroy, Pool_unref]\<rparr>"
    unfolding t2 [THEN conjunct2, THEN conjunct2, THEN conjunct1, THEN mp, OF h3] l2 f2
    by (simp add: fr [OF dup(2)])
  from a b c show ?thesis by simp
qed

section \<open>The section index\<close>















section \<open>Monotonicity in the dump scope\<close>

















end
